theory Spec2Isabelle
  imports Main
begin

text \<open>
  A model of the orchestration code of the Thunderbird TbSync MCP server
  (\<open>extension/mcp_server/api.js\<close>): the idempotency cache and the workflow of
  \<open>syncAndCreateCalendarEvent\<close>, the bulk delete through the calendar store
  (\<open>syncAndDeleteEventsBySql\<close>) and the bulk delete by enumeration
  (\<open>tbsyncDeleteEasEventsByTitleRange\<close>), with the helpers they call. The registries of
  the server are a record that every operation takes and returns; \<open>Date.now()\<close> is a
  parameter, read once in each synchronous stretch of code; what Thunderbird, TbSync and
  the calendar store answer is given by parameters as well.
\<close>

section \<open>JavaScript strings\<close>

text \<open>
  A JavaScript string is modelled as a \<^typ>\<open>string\<close> whose characters are code units below
  256. \<open>undefined\<close> (an absent field of the argument object) is \<^term>\<open>None\<close>; a string is
  truthy when it is present and not empty.
\<close>

definition truthy :: "string option \<Rightarrow> bool" where
  "truthy v = (case v of None \<Rightarrow> False | Some s \<Rightarrow> s \<noteq> [])"

text \<open>\<open>String(v || "")\<close>\<close>

definition strOrEmpty :: "string option \<Rightarrow> string" where
  "strOrEmpty v = (case v of None \<Rightarrow> [] | Some s \<Rightarrow> s)"

text \<open>The white space of \<open>String.prototype.trim\<close> and of the regular expression class \<open>\s\<close>,
  in the range of code units modelled: TAB, LF, VT, FF, CR, SP and NBSP.\<close>

definition isSpace :: "char \<Rightarrow> bool" where
  "isSpace c = (c = CHR 0x09 \<or> c = CHR 0x0A \<or> c = CHR 0x0B \<or> c = CHR 0x0C \<or> c = CHR 0x0D
                \<or> c = CHR 0x20 \<or> c = CHR 0xA0)"

definition trim :: "string \<Rightarrow> string" where
  "trim s = rev (dropWhile isSpace (rev (dropWhile isSpace s)))"

definition lowerChar :: "char \<Rightarrow> char" where
  "lowerChar c =
     (case map_of (zip ''ABCDEFGHIJKLMNOPQRSTUVWXYZ'' ''abcdefghijklmnopqrstuvwxyz'') c of
        None \<Rightarrow> c
      | Some d \<Rightarrow> d)"

definition toLowerCase :: "string \<Rightarrow> string" where
  "toLowerCase s = map lowerChar s"

fun startsWith :: "string \<Rightarrow> string \<Rightarrow> bool" where
  "startsWith s [] = True"
| "startsWith [] (c # cs) = False"
| "startsWith (a # as) (c # cs) = (a = c \<and> startsWith as cs)"

definition endsWith :: "string \<Rightarrow> string \<Rightarrow> bool" where
  "endsWith s x = startsWith (rev s) (rev x)"

text \<open>\<open>h.includes(n)\<close>: \<open>n\<close> occurs in \<open>h\<close> as a contiguous substring.\<close>

fun strIncludes :: "string \<Rightarrow> string \<Rightarrow> bool" where
  "strIncludes [] n = (n = [])"
| "strIncludes (c # cs) n = (startsWith (c # cs) n \<or> strIncludes cs n)"

text \<open>\<open>s.slice(a, b)\<close> for \<open>0 \<le> a \<le> b\<close>.\<close>

definition slice :: "string \<Rightarrow> nat \<Rightarrow> nat \<Rightarrow> string" where
  "slice s a b = take (b - a) (drop a s)"

definition isDigit :: "char \<Rightarrow> bool" where
  "isDigit c = (c \<in> set ''0123456789'')"

definition digitVal :: "char \<Rightarrow> nat" where
  "digitVal c =
     (case map_of (zip ''0123456789'' [0, 1, 2, 3, 4, 5, 6, 7, 8, 9]) c of
        None \<Rightarrow> 0
      | Some d \<Rightarrow> d)"

text \<open>\<open>parseInt(ds, 10)\<close> on a string of decimal digits.\<close>

definition parseDigits :: "string \<Rightarrow> nat" where
  "parseDigits ds = foldl (\<lambda>a c. 10 * a + digitVal c) 0 ds"

section \<open>The argument object of a tool call\<close>

text \<open>
  The fields the tools read from \<open>args\<close>, typed as the tools' input schemas declare them.
  The fields \<open>start\<close> and \<open>end\<close> of the source are \<open>startArg\<close> and \<open>endArg\<close> here.
\<close>

record tool_args =
  tbsyncUser :: "string option"
  calendarId :: "string option"
  calendarName :: "string option"
  title :: "string option"
  description :: "string option"
  allDay :: "bool option"
  date :: "string option"
  startArg :: "string option"
  endArg :: "string option"
  mcpTag :: "string option"
  titleMustContainAll :: "string list option"

definition noArgs :: tool_args where
  "noArgs = \<lparr>tbsyncUser = None, calendarId = None, calendarName = None, title = None,
             description = None, allDay = None, date = None, startArg = None, endArg = None,
             mcpTag = None, titleMustContainAll = None\<rparr>"

section \<open>Tags and the idempotency key\<close>

text \<open>\<open>containsAll(haystack, needles)\<close>; the haystack is passed as the string
  \<open>String(haystack || "")\<close>, the needles as \<open>needles || []\<close>.\<close>

fun containsAll :: "string \<Rightarrow> string list \<Rightarrow> bool" where
  "containsAll haystack [] = True"
| "containsAll haystack (n # needles) =
     (let nn = trim (toLowerCase n) in
      if nn = [] then containsAll haystack needles
      else if \<not> strIncludes (toLowerCase haystack) nn then False
      else containsAll haystack needles)"

definition shortTagForEvent :: "tool_args \<Rightarrow> string" where
  "shortTagForEvent args =
     (if allDay args = Some True \<and> truthy (date args)
      then ''mcp:'' @ filter (\<lambda>c. c \<noteq> CHR ''-'') (strOrEmpty (date args))
      else if allDay args \<noteq> Some True \<and> truthy (startArg args) \<and> truthy (endArg args)
      then (let strip = filter (\<lambda>c. \<not> (c = CHR ''-'' \<or> c = CHR '':'' \<or> c = CHR ''T'' \<or> isSpace c));
                s = strip (strOrEmpty (startArg args));
                e = strip (strOrEmpty (endArg args))
            in ''mcp:'' @ slice s 0 8 @ ''-'' @ slice s 8 12 @ ''-'' @ slice e 8 12)
      else ''mcp'')"

definition withTagAtEnd :: "string option \<Rightarrow> string option \<Rightarrow> string" where
  "withTagAtEnd ttl tag =
     (let base = trim (strOrEmpty ttl);
          t = trim (strOrEmpty tag)
      in if t = [] then base
         else if endsWith base (''('' @ t @ '')'') then base
         else base @ '' ('' @ t @ '')'')"

text \<open>The tag of a request: \<open>args.mcpTag ? String(args.mcpTag).trim() : shortTagForEvent(args)\<close>.\<close>

definition tagOf :: "tool_args \<Rightarrow> string" where
  "tagOf args = (if truthy (mcpTag args) then trim (strOrEmpty (mcpTag args))
                 else shortTagForEvent args)"

definition idempotencyKey :: "tool_args \<Rightarrow> string" where
  "idempotencyKey args =
     (let calKey = (if truthy (calendarId args) then strOrEmpty (calendarId args)
                    else if truthy (calendarName args) then strOrEmpty (calendarName args)
                    else []);
          tag = tagOf args
      in if allDay args = Some True
         then calKey @ ''|'' @ strOrEmpty (date args) @ ''|'' @ tag @ ''|'' @ strOrEmpty (title args)
         else calKey @ ''|'' @ (strOrEmpty (startArg args) @ ''-'' @ strOrEmpty (endArg args))
                @ ''|'' @ tag)"

text \<open>\<open>Object.assign({}, args, { mcpTag: tag, title: withTagAtEnd(args.title, tag) })\<close>\<close>

definition argsWithTag :: "tool_args \<Rightarrow> tool_args" where
  "argsWithTag args =
     (let tag = tagOf args
      in args\<lparr>mcpTag := Some tag, title := Some (withTagAtEnd (title args) (Some tag))\<rparr>)"

section \<open>The synchronisation agent\<close>

text \<open>
  An awaited call either throws or returns; a thrown exception is represented by the string
  \<open>e.toString()\<close> that the workflows record.
\<close>

datatype 'a outcome = Throws string | Returns 'a

text \<open>
  What \<open>getTbSyncModule\<close> and \<open>tbsyncSyncAccountByUser\<close> read from Thunderbird at the
  moment they run: whether the two add-ons are installed and active, whether the TbSync
  extension object is available, an exception raised while importing or loading the module,
  the TbSync accounts as pairs of account id and \<open>data.user || ""\<close>, and exceptions raised by
  \<open>db.getAccounts\<close> and \<open>core.syncAccount\<close>.
\<close>

record tbsync_env =
  tbsActive :: bool
  easActive :: bool
  extensionAvailable :: bool
  moduleFault :: "string option"
  accountsFault :: "string option"
  accounts :: "(string \<times> string) list"
  syncFault :: "string option"

definition getTbSyncModule :: "tbsync_env \<Rightarrow> unit outcome" where
  "getTbSyncModule env =
     (if \<not> tbsActive env
      then Throws ''Error: TbSync is not installed/enabled (expected add-on id: tbsync@jobisoft.de).''
      else if \<not> easActive env
      then Throws ''Error: Provider for Exchange ActiveSync is not installed/enabled (expected add-on id: eas4tbsync@jobisoft.de).''
      else if \<not> extensionAvailable env
      then Throws ''Error: TbSync extension is not available via ExtensionParent.GlobalManager.''
      else (case moduleFault env of Some e \<Rightarrow> Throws e | None \<Rightarrow> Returns ()))"

datatype sync_result = SyncError string | SyncTriggered string string

fun joinComma :: "string list \<Rightarrow> string" where
  "joinComma [] = []"
| "joinComma [x] = x"
| "joinComma (x # y # ys) = x @ '','' @ joinComma (y # ys)"

text \<open>Calls issued to the collaborators, in the order they are made.\<close>

datatype ext_call =
    SyncAccount string
  | CreateCalendarEvent tool_args
  | DeleteItem string string

text \<open>\<open>tbsyncSyncAccountByUser(userEmail)\<close>: the outcome and the \<open>syncAccount\<close> call it issues.\<close>

definition tbsyncSyncAccountByUser ::
  "tbsync_env \<Rightarrow> string option \<Rightarrow> sync_result outcome \<times> ext_call list" where
  "tbsyncSyncAccountByUser env userEmail =
     (case getTbSyncModule env of
        Throws e \<Rightarrow> (Throws e, [])
      | Returns u \<Rightarrow>
          (case accountsFault env of
             Some e \<Rightarrow> (Throws e, [])
           | None \<Rightarrow>
               (let needle = trim (toLowerCase (strOrEmpty userEmail));
                    matches = map fst (filter (\<lambda>(i, user). trim (toLowerCase user) = needle)
                                         (accounts env))
                in if length matches = 0
                   then (Returns (SyncError (''No TbSync account found with user='' @ needle)), [])
                   else if length matches > 1
                   then (Returns (SyncError (''Multiple TbSync accounts found with user='' @ needle
                                             @ '': '' @ joinComma matches)), [])
                   else (case syncFault env of
                           Some e \<Rightarrow> (Throws e, [SyncAccount (hd matches)])
                         | None \<Rightarrow> (Returns (SyncTriggered (hd matches) needle),
                                     [SyncAccount (hd matches)])))))"

section \<open>The server's registries\<close>

text \<open>
  A workflow job id is \<open>`wfjob-${Date.now()}-${_workflowSeq}`\<close> and a calendar job id is
  \<open>`caljob-${Date.now()}-${_calendarJobSeq}`\<close>; both are kept as the pair of numbers they
  are printed from.
\<close>

datatype wf_id = WfJob int nat

datatype cal_job_id = CalJob int nat

text \<open>What \<open>createCalendarEvent\<close> returns: \<open>{ error }\<close> or the success payload with the id of
  the add-item job.\<close>

datatype created_result = CreateError string | CreateStarted string

text \<open>The \<open>created\<close> field of an idempotency entry: \<open>{ pending: true, workflowJobId }\<close> or
  \<open>{ preSync, created, postSync, postSync2 }\<close>.\<close>

datatype idem_payload =
    Pending wf_id
  | Completed sync_result created_result sync_result sync_result

record idem_entry =
  ts :: int
  created :: idem_payload

record sql_row =
  rowId :: string
  rowTitle :: string

record delete_tally =
  candidateCount :: nat
  deleteTriggered :: nat
  deleteErrors :: nat
  sample :: "sql_row list"

datatype wf_result =
    NoResult
  | CreateResult sync_result created_result sync_result sync_result
  | DeleteResult delete_tally

datatype wf_meta =
    CreateMeta string "string option" "string option"
  | SqlDeleteMeta "string option" string string "string option" "string option"
                  "string list option"

record workflow_job =
  jobId :: wf_id
  status :: string
  createdAtMs :: int
  updatedAtMs :: int
  step :: string
  meta :: wf_meta
  result :: wf_result
  error :: "string option"

record calendar_job =
  cjJobId :: cal_job_id
  cjStatus :: string
  cjCreatedAtMs :: int
  cjReason :: string
  cjTitle :: string
  cjError :: "string option"
  cjDeletedId :: "string option"

text \<open>
  The module-level variables \<open>_workflowSeq\<close>, \<open>_workflowJobs\<close>, \<open>_idempotency\<close>,
  \<open>_calendarJobSeq\<close> and \<open>_calendarJobs\<close>, and the log of the calls issued to the
  collaborators so far.
\<close>

record server_state =
  workflowSeq :: nat
  workflowJobs :: "wf_id \<Rightarrow> workflow_job option"
  idempotency :: "string \<Rightarrow> idem_entry option"
  calendarJobSeq :: nat
  calendarJobs :: "cal_job_id \<Rightarrow> calendar_job option"
  issued :: "ext_call list"

definition initState :: server_state where
  "initState = \<lparr>workflowSeq = 0, workflowJobs = Map.empty, idempotency = Map.empty,
                calendarJobSeq = 0, calendarJobs = Map.empty, issued = []\<rparr>"

definition IDEMPOTENCY_TTL_MS :: int where
  "IDEMPOTENCY_TTL_MS = 6 * 60 * 60 * 1000"

text \<open>\<open>newWorkflowJobId\<close>, with the reading of \<open>Date.now()\<close> as \<open>now\<close>.\<close>

definition newWorkflowJobId :: "int \<Rightarrow> server_state \<Rightarrow> wf_id \<times> server_state" where
  "newWorkflowJobId now s =
     (WfJob now (Suc (workflowSeq s)), s\<lparr>workflowSeq := Suc (workflowSeq s)\<rparr>)"

text \<open>\<open>cleanupIdempotency\<close>: an entry goes when \<open>!v.ts\<close> or \<open>now - v.ts > IDEMPOTENCY_TTL_MS\<close>.\<close>

definition cleanupIdempotency ::
  "int \<Rightarrow> (string \<Rightarrow> idem_entry option) \<Rightarrow> (string \<Rightarrow> idem_entry option)" where
  "cleanupIdempotency now m =
     (\<lambda>k. case m k of
             None \<Rightarrow> None
           | Some v \<Rightarrow> if ts v = 0 \<or> now - ts v > IDEMPOTENCY_TTL_MS then None else Some v)"

text \<open>An assignment to fields of the job object a workflow holds.\<close>

definition updateJob ::
  "wf_id \<Rightarrow> (workflow_job \<Rightarrow> workflow_job) \<Rightarrow> server_state \<Rightarrow> server_state" where
  "updateJob w f s = s\<lparr>workflowJobs := (workflowJobs s)(w := map_option f (workflowJobs s w))\<rparr>"

definition stepLabel :: "wf_id \<Rightarrow> server_state \<Rightarrow> string" where
  "stepLabel w s = (case workflowJobs s w of None \<Rightarrow> [] | Some job \<Rightarrow> step job)"

section \<open>The create workflow\<close>

datatype tool_response =
    ErrorResponse string
  | AlreadyCreated string idem_payload
  | CreateWorkflowStarted wf_id string
  | DeleteWorkflowStarted wf_id

text \<open>
  The asynchronous body of \<open>syncAndCreateCalendarEvent\<close> is suspended at each \<open>await\<close>. A
  suspended body is its program point, with the values of \<open>pre\<close>, \<open>created\<close> and \<open>post\<close>
  obtained so far, and the variables it closes over.
\<close>

datatype create_pc =
    AwaitPreSync
  | SleepBeforeCreate sync_result
  | SleepBeforePostSync sync_result created_result
  | AwaitPostSync sync_result created_result
  | SleepBeforePostSync2 sync_result created_result sync_result
  | AwaitPostSync2 sync_result created_result sync_result
  | Finished

record create_cont =
  pc :: create_pc
  wfJobId :: wf_id
  key :: string
  user :: "string option"
  taggedArgs :: tool_args

text \<open>What the body finds when it is resumed: the state of the synchronisation agent and
  the outcome of \<open>createCalendarEvent(argsWithTag)\<close>. The inside of
  \<open>createCalendarEvent\<close> is not modelled: the workflow's call of it is logged, and what it
  returns or throws is given.\<close>

record ext_env =
  tbsync :: tbsync_env
  createOutcome :: "created_result outcome"

text \<open>The part of \<open>syncAndCreateCalendarEvent\<close> from \<open>newWorkflowJobId()\<close> to
  \<open>_idempotency.set(key, ...)\<close>.\<close>

definition registerWorkflow ::
  "int \<Rightarrow> string \<Rightarrow> tool_args \<Rightarrow> server_state \<Rightarrow> create_cont \<times> server_state" where
  "registerWorkflow now k a s =
     (let (w, s1) = newWorkflowJobId now s;
          job = \<lparr>jobId = w, status = ''running'', createdAtMs = now, updatedAtMs = now,
                 step = ''start'',
                 meta = CreateMeta k (tbsyncUser a)
                          (if truthy (calendarId a) then calendarId a
                           else if truthy (calendarName a) then calendarName a else None),
                 result = NoResult, error = None\<rparr>;
          s2 = s1\<lparr>workflowJobs := (workflowJobs s1)(w \<mapsto> job)\<rparr>;
          s3 = s2\<lparr>idempotency := (idempotency s2)(k \<mapsto> \<lparr>ts = now, created = Pending w\<rparr>)\<rparr>
      in (\<lparr>pc = AwaitPreSync, wfJobId = w, key = k, user = tbsyncUser a, taggedArgs = a\<rparr>, s3))"

text \<open>The body up to its first \<open>await\<close>, which runs before \<open>syncAndCreateCalendarEvent\<close>
  returns.\<close>

definition beginWorkflow :: "int \<Rightarrow> create_cont \<Rightarrow> server_state \<Rightarrow> server_state" where
  "beginWorkflow now c s =
     updateJob (wfJobId c) (\<lambda>job. job\<lparr>step := ''preSync'', updatedAtMs := now\<rparr>) s"

definition syncAndCreateCalendarEvent ::
  "int \<Rightarrow> tool_args \<Rightarrow> server_state \<Rightarrow> tool_response \<times> create_cont option \<times> server_state" where
  "syncAndCreateCalendarEvent now args s =
     (if \<not> truthy (tbsyncUser args)
      then (ErrorResponse ''Missing required field: tbsyncUser (email)'', None, s)
      else (let s1 = s\<lparr>idempotency := cleanupIdempotency now (idempotency s)\<rparr>;
                a = argsWithTag args;
                k = idempotencyKey a
            in case idempotency s1 k of
                 Some seen \<Rightarrow> (AlreadyCreated k (created seen), None, s1)
               | None \<Rightarrow>
                   (let (c, s2) = registerWorkflow now k a s1
                    in (CreateWorkflowStarted (wfJobId c) k, Some c, beginWorkflow now c s2))))"

text \<open>The \<open>catch\<close> block of the body.\<close>

definition failWorkflow :: "int \<Rightarrow> string \<Rightarrow> create_cont \<Rightarrow> server_state \<Rightarrow> create_cont \<times> server_state" where
  "failWorkflow now e c s =
     (c\<lparr>pc := Finished\<rparr>,
      updateJob (wfJobId c)
        (\<lambda>job. job\<lparr>status := ''error'', step := ''error'', updatedAtMs := now, error := Some e\<rparr>) s)"

definition logCalls :: "ext_call list \<Rightarrow> server_state \<Rightarrow> server_state" where
  "logCalls cs s = s\<lparr>issued := issued s @ cs\<rparr>"

text \<open>
  One resumption of the body, at time \<open>now\<close>: it runs from the \<open>await\<close> it is suspended at to
  the next one. The timers of \<open>sleepMs\<close> are taken to fire; \<open>createCalendarEvent\<close> contains no
  \<open>await\<close>, so its call and its result belong to the resumption that follows the sleep.
\<close>

definition resume :: "int \<Rightarrow> ext_env \<Rightarrow> create_cont \<Rightarrow> server_state \<Rightarrow> create_cont \<times> server_state" where
  "resume now env c s =
     (case pc c of
        AwaitPreSync \<Rightarrow>
          (let (r, calls) = tbsyncSyncAccountByUser (tbsync env) (user c);
               s1 = logCalls calls s
           in case r of
                Throws e \<Rightarrow> failWorkflow now e c s1
              | Returns pre \<Rightarrow>
                  (c\<lparr>pc := SleepBeforeCreate pre\<rparr>,
                   updateJob (wfJobId c) (\<lambda>job. job\<lparr>step := ''create'', updatedAtMs := now\<rparr>) s1))
      | SleepBeforeCreate pre \<Rightarrow>
          (let s1 = logCalls [CreateCalendarEvent (taggedArgs c)] s
           in case createOutcome env of
                Throws e \<Rightarrow> failWorkflow now e c s1
              | Returns cr \<Rightarrow>
                  (c\<lparr>pc := SleepBeforePostSync pre cr\<rparr>,
                   updateJob (wfJobId c) (\<lambda>job. job\<lparr>step := ''postSync'', updatedAtMs := now\<rparr>) s1))
      | SleepBeforePostSync pre cr \<Rightarrow> (c\<lparr>pc := AwaitPostSync pre cr\<rparr>, s)
      | AwaitPostSync pre cr \<Rightarrow>
          (let (r, calls) = tbsyncSyncAccountByUser (tbsync env) (user c);
               s1 = logCalls calls s
           in case r of
                Throws e \<Rightarrow> failWorkflow now e c s1
              | Returns post \<Rightarrow> (c\<lparr>pc := SleepBeforePostSync2 pre cr post\<rparr>, s1))
      | SleepBeforePostSync2 pre cr post \<Rightarrow> (c\<lparr>pc := AwaitPostSync2 pre cr post\<rparr>, s)
      | AwaitPostSync2 pre cr post \<Rightarrow>
          (let (r, calls) = tbsyncSyncAccountByUser (tbsync env) (user c);
               s1 = logCalls calls s
           in case r of
                Throws e \<Rightarrow> failWorkflow now e c s1
              | Returns post2 \<Rightarrow>
                  (let s2 = updateJob (wfJobId c)
                              (\<lambda>job. job\<lparr>status := ''done'', step := ''done'', updatedAtMs := now,
                                          result := CreateResult pre cr post post2\<rparr>) s1
                   in (c\<lparr>pc := Finished\<rparr>,
                       s2\<lparr>idempotency := (idempotency s2)
                            (key c \<mapsto> \<lparr>ts = now, created = Completed pre cr post post2\<rparr>)\<rparr>)))
      | Finished \<Rightarrow> (c, s))"

text \<open>A run of the body: the configurations after each of a list of resumptions.\<close>

fun runWorkflow ::
  "(int \<times> ext_env) list \<Rightarrow> create_cont \<Rightarrow> server_state \<Rightarrow> (create_cont \<times> server_state) list" where
  "runWorkflow [] c s = []"
| "runWorkflow ((now, env) # rest) c s =
     (let (c', s') = resume now env c s in (c', s') # runWorkflow rest c' s')"

definition runTo ::
  "(int \<times> ext_env) list \<Rightarrow> create_cont \<Rightarrow> server_state \<Rightarrow> create_cont \<times> server_state" where
  "runTo ins c s = last ((c, s) # runWorkflow ins c s)"


section \<open>Calendars and time ranges\<close>

record calendar =
  calId :: string
  calName :: string
  readOnly :: bool

definition resolveCalendar :: "calendar list \<Rightarrow> tool_args \<Rightarrow> calendar option" where
  "resolveCalendar calendars args =
     (if truthy (calendarId args)
      then find (\<lambda>c. calId c = strOrEmpty (calendarId args)) calendars
      else if truthy (calendarName args)
      then find (\<lambda>c. calName c = strOrEmpty (calendarName args)) calendars
      else None)"

record dt_fields =
  y :: nat
  mo :: nat
  d :: nat
  hh :: nat
  mm :: nat

text \<open>\<open>parseDateTimeLocal\<close>: the trimmed string must match
  \<open>/^(\d{4})-(\d{2})-(\d{2})[T\s](\d{2}):(\d{2})$/\<close>.\<close>

definition parseDateTimeLocal :: "string option \<Rightarrow> dt_fields option" where
  "parseDateTimeLocal dtStr =
     (let s = trim (strOrEmpty dtStr)
      in if length s = 16
            \<and> list_all isDigit (slice s 0 4) \<and> s ! 4 = CHR ''-''
            \<and> list_all isDigit (slice s 5 7) \<and> s ! 7 = CHR ''-''
            \<and> list_all isDigit (slice s 8 10) \<and> (s ! 10 = CHR ''T'' \<or> isSpace (s ! 10))
            \<and> list_all isDigit (slice s 11 13) \<and> s ! 13 = CHR '':''
            \<and> list_all isDigit (slice s 14 16)
         then Some \<lparr>y = parseDigits (slice s 0 4), mo = parseDigits (slice s 5 7),
                     d = parseDigits (slice s 8 10), hh = parseDigits (slice s 11 13),
                     mm = parseDigits (slice s 14 16)\<rparr>
         else None)"

text \<open>
  \<open>makeTimedRange\<close> builds two date-time objects of the calendar library in the default
  time zone. Such an object is represented by its \<open>nativeTime\<close>, which the library computes
  from the fields (the parameter \<open>nativeTime\<close>) and by which \<open>compare\<close> orders. The result
  \<open>null\<close> is \<open>BadFormat\<close>.
\<close>

datatype range_result = BadFormat | RangeError string | Range int int

definition makeTimedRange ::
  "(dt_fields \<Rightarrow> int) \<Rightarrow> string option \<Rightarrow> string option \<Rightarrow> range_result" where
  "makeTimedRange nativeTime startStr endStr =
     (case parseDateTimeLocal startStr of
        None \<Rightarrow> BadFormat
      | Some s \<Rightarrow>
          (case parseDateTimeLocal endStr of
             None \<Rightarrow> BadFormat
           | Some e \<Rightarrow>
               if nativeTime e \<le> nativeTime s then RangeError ''end must be after start''
               else Range (nativeTime s) (nativeTime e)))"

section \<open>The bulk delete through the calendar store\<close>

text \<open>
  The statement \<open>syncAndDeleteEventsBySql\<close> sends to the calendar store is
  \<open>SELECT id, title FROM cal_events WHERE cal_id = :cal_id AND event_start >= :start_us AND
  event_start < :end_us\<close>, followed by one \<open>AND lower(title) LIKE :kwN\<close> for each keyword
  kept, whose parameter is \<open>%kw%\<close>. It is represented by its parameters.
\<close>

record sql_query =
  cal_id :: string
  start_us :: int
  end_us :: int
  kws :: "string list"

text \<open>The keywords kept by the loop over \<open>titleMustContainAll || []\<close>.\<close>

definition sqlKeywords :: "string list option \<Rightarrow> string list" where
  "sqlKeywords needles =
     filter (\<lambda>kw. kw \<noteq> [])
       (map (\<lambda>kwRaw. trim (toLowerCase kwRaw)) (case needles of None \<Rightarrow> [] | Some ns \<Rightarrow> ns))"

definition buildQuery :: "calendar \<Rightarrow> int \<Rightarrow> int \<Rightarrow> string list option \<Rightarrow> sql_query" where
  "buildQuery target lo hi needles =
     \<lparr>cal_id = calId target, start_us = lo, end_us = hi,
      kws = map (\<lambda>kw. ''%'' @ kw @ ''%'') (sqlKeywords needles)\<rparr>"

text \<open>The store's answer: opening the connection fails, executing the statement fails, or
  rows come back.\<close>

datatype db_outcome = OpenFails string | ExecuteFails string | Rows "sql_row list"

text \<open>
  What happens when one candidate is dispatched: creating the event object throws (the
  exception reaches the loop of the workflow), the provider's \<open>deleteItem\<close> throws (the
  exception is caught inside \<open>startDeleteItemJob\<close>), or the provider accepts the call.
\<close>

datatype dispatch_outcome = CreateInstanceThrows string | DeleteItemThrows string | Accepted

record delete_env =
  store :: "sql_query \<Rightarrow> db_outcome"
  closeFault :: "string option"
  dispatch :: "sql_row \<Rightarrow> dispatch_outcome"
  postSyncEnv :: tbsync_env

definition newCalendarJobId :: "int \<Rightarrow> server_state \<Rightarrow> cal_job_id \<times> server_state" where
  "newCalendarJobId now s =
     (CalJob now (Suc (calendarJobSeq s)), s\<lparr>calendarJobSeq := Suc (calendarJobSeq s)\<rparr>)"

text \<open>\<open>startDeleteItemJob(target, item, { reason, title })\<close>, where \<open>deleteThrows\<close> says
  whether \<open>target.deleteItem\<close> throws.\<close>

definition startDeleteItemJob ::
  "int \<Rightarrow> calendar \<Rightarrow> sql_row \<Rightarrow> string \<Rightarrow> string option \<Rightarrow> server_state
   \<Rightarrow> calendar_job \<times> server_state" where
  "startDeleteItemJob now target item reason deleteThrows s =
     (let (j, s1) = newCalendarJobId now s;
          job = \<lparr>cjJobId = j,
                 cjStatus = (case deleteThrows of None \<Rightarrow> ''pending'' | Some e \<Rightarrow> ''error''),
                 cjCreatedAtMs = now, cjReason = reason, cjTitle = rowTitle item,
                 cjError = deleteThrows,
                 cjDeletedId = (if rowId item \<noteq> [] then Some (rowId item) else None)\<rparr>;
          s2 = s1\<lparr>calendarJobs := (calendarJobs s1)(j \<mapsto> job)\<rparr>
      in (job, logCalls [DeleteItem (calId target) (rowId item)] s2))"

text \<open>The loop \<open>for (const it of ids)\<close>: the tally and the state after the candidates.\<close>

fun dispatchAll ::
  "int \<Rightarrow> calendar \<Rightarrow> (sql_row \<Rightarrow> dispatch_outcome) \<Rightarrow> sql_row list
   \<Rightarrow> delete_tally \<times> server_state \<Rightarrow> delete_tally \<times> server_state" where
  "dispatchAll now target disp [] (t, s) = (t, s)"
| "dispatchAll now target disp (it # ids) (t, s) =
     (case disp it of
        CreateInstanceThrows e \<Rightarrow>
          dispatchAll now target disp ids (t\<lparr>deleteErrors := deleteErrors t + 1\<rparr>, s)
      | DeleteItemThrows e \<Rightarrow>
          dispatchAll now target disp ids
            (t\<lparr>deleteTriggered := deleteTriggered t + 1\<rparr>,
             snd (startDeleteItemJob now target it ''sqlBulkDelete'' (Some e) s))
      | Accepted \<Rightarrow>
          dispatchAll now target disp ids
            (t\<lparr>deleteTriggered := deleteTriggered t + 1\<rparr>,
             snd (startDeleteItemJob now target it ''sqlBulkDelete'' None s)))"

text \<open>The variables the asynchronous body of \<open>syncAndDeleteEventsBySql\<close> closes over.\<close>

record delete_cont =
  delJobId :: wf_id
  delTarget :: calendar
  delLo :: int
  delHi :: int
  delNeedles :: "string list option"
  delUser :: "string option"

text \<open>The synchronous part of \<open>syncAndDeleteEventsBySql\<close>, up to the registration of the
  workflow job.\<close>

definition syncAndDeleteEventsBySql ::
  "calendar list \<Rightarrow> (dt_fields \<Rightarrow> int) \<Rightarrow> int \<Rightarrow> tool_args \<Rightarrow> server_state
   \<Rightarrow> tool_response \<times> delete_cont option \<times> server_state" where
  "syncAndDeleteEventsBySql calendars nativeTime now args s =
     (if \<not> truthy (tbsyncUser args)
      then (ErrorResponse ''Missing required field: tbsyncUser'', None, s)
      else if \<not> truthy (startArg args) \<or> \<not> truthy (endArg args)
      then (ErrorResponse ''Missing required fields: start, end (YYYY-MM-DDTHH:MM)'', None, s)
      else
       (case resolveCalendar calendars args of
          None \<Rightarrow>
            (ErrorResponse (''Calendar not found (name='' @ strOrEmpty (calendarName args)
                            @ '', id='' @ strOrEmpty (calendarId args) @ '')''), None, s)
        | Some target \<Rightarrow>
            (if readOnly target
             then (ErrorResponse (''Calendar is read-only: '' @ calName target), None, s)
             else
              (case makeTimedRange nativeTime (startArg args) (endArg args) of
                 BadFormat \<Rightarrow>
                   (ErrorResponse
                      (''Invalid datetime format (expected YYYY-MM-DDTHH:MM): start=''
                       @ strOrEmpty (startArg args) @ '' end='' @ strOrEmpty (endArg args)),
                    None, s)
               | RangeError e \<Rightarrow> (ErrorResponse e, None, s)
               | Range lo hi \<Rightarrow>
                   (let (w, s1) = newWorkflowJobId now s;
                        job = \<lparr>jobId = w, status = ''running'', createdAtMs = now,
                               updatedAtMs = now, step = ''querySql'',
                               meta = SqlDeleteMeta (tbsyncUser args) (calId target)
                                        (calName target) (startArg args) (endArg args)
                                        (titleMustContainAll args),
                               result = DeleteResult \<lparr>candidateCount = 0, deleteTriggered = 0,
                                                       deleteErrors = 0, sample = []\<rparr>,
                               error = None\<rparr>
                    in (DeleteWorkflowStarted w,
                        Some \<lparr>delJobId = w, delTarget = target, delLo = lo, delHi = hi,
                              delNeedles = titleMustContainAll args,
                              delUser = tbsyncUser args\<rparr>,
                        s1\<lparr>workflowJobs := (workflowJobs s1)(w \<mapsto> job)\<rparr>))))))"

definition failDelete :: "int \<Rightarrow> string \<Rightarrow> wf_id \<Rightarrow> server_state \<Rightarrow> server_state" where
  "failDelete now e w s =
     updateJob w
       (\<lambda>job. job\<lparr>status := ''error'', step := ''error'', updatedAtMs := now, error := Some e\<rparr>) s"

text \<open>
  The asynchronous body of \<open>syncAndDeleteEventsBySql\<close>, run to its end; \<open>now\<close> stands for the
  readings of the clock during the run. The connection is closed in a \<open>finally\<close> block
  once it was opened. The two calls of \<open>tbsyncSyncAccountByUser\<close> of the \<open>postSync\<close> step are
  not awaited and stand in \<open>try\<close> blocks with empty handlers: only the \<open>syncAccount\<close> calls
  they issue are kept.
\<close>

definition runSqlDelete :: "int \<Rightarrow> delete_env \<Rightarrow> delete_cont \<Rightarrow> server_state \<Rightarrow> server_state" where
  "runSqlDelete now env c s =
     (let w = delJobId c
      in case store env (buildQuery (delTarget c) (delLo c) (delHi c) (delNeedles c)) of
        OpenFails e \<Rightarrow> failDelete now e w s
      | ExecuteFails e \<Rightarrow>
          (case closeFault env of
             Some e2 \<Rightarrow> failDelete now e2 w s
           | None \<Rightarrow> failDelete now e w s)
      | Rows ids \<Rightarrow>
          (let t0 = \<lparr>candidateCount = length ids, deleteTriggered = 0, deleteErrors = 0,
                     sample = take 10 ids\<rparr>;
               s1 = updateJob w (\<lambda>job. job\<lparr>result := DeleteResult t0, updatedAtMs := now,
                                            step := ''delete''\<rparr>) s;
               (t, s2) = dispatchAll now (delTarget c) (dispatch env) ids (t0, s1);
               s3 = updateJob w (\<lambda>job. job\<lparr>result := DeleteResult t, updatedAtMs := now\<rparr>) s2
           in case closeFault env of
                Some e2 \<Rightarrow> failDelete now e2 w s3
              | None \<Rightarrow>
                  (let s4 = updateJob w (\<lambda>job. job\<lparr>step := ''postSync'', updatedAtMs := now\<rparr>) s3;
                       calls = snd (tbsyncSyncAccountByUser (postSyncEnv env) (delUser c));
                       s5 = logCalls (calls @ calls) s4
                   in updateJob w (\<lambda>job. job\<lparr>status := ''done'', step := ''done'',
                                               updatedAtMs := now\<rparr>) s5)))"

section \<open>The bulk delete by enumeration\<close>










section \<open>Properties and example inputs\<close>

text \<open>No registered workflow job carries a sequence number beyond \<open>_workflowSeq\<close>.\<close>

definition wfIdsBounded :: "server_state \<Rightarrow> bool" where
  "wfIdsBounded s = (\<forall>t n. workflowJobs s (WfJob t n) \<noteq> None \<longrightarrow> n \<le> workflowSeq s)"



text \<open>The request of the specification's scenario, and a synchronisation agent with one
  account of that user.\<close>

definition dentistArgs :: tool_args where
  "dentistArgs = noArgs\<lparr>tbsyncUser := Some ''user@example.org'', calendarName := Some ''C'',
                         title := Some ''Dentist'', allDay := Some True,
                         date := Some ''2026-02-04''\<rparr>"

definition dentistKey :: string where
  "dentistKey = ''C|2026-02-04|mcp:20260204|Dentist (mcp:20260204)''"

definition dentistCont :: create_cont where
  "dentistCont = \<lparr>pc = AwaitPreSync, wfJobId = WfJob 1000 1, key = dentistKey,
                   user = Some ''user@example.org'', taggedArgs = argsWithTag dentistArgs\<rparr>"

definition okTbsync :: tbsync_env where
  "okTbsync = \<lparr>tbsActive = True, easActive = True, extensionAvailable = True,
               moduleFault = None, accountsFault = None,
               accounts = [(''acct1'', ''User@Example.org'')], syncFault = None\<rparr>"

definition okEnv :: ext_env where
  "okEnv = \<lparr>tbsync = okTbsync, createOutcome = Returns (CreateStarted ''caljob-2700-1'')\<rparr>"

text \<open>A cache that holds the completed entry of the scenario request, stored at time 7000.\<close>

definition staleState :: server_state where
  "staleState =
     initState\<lparr>idempotency :=
       [dentistKey \<mapsto>
          \<lparr>ts = 7000,
           created = Completed (SyncTriggered ''acct1'' ''user@example.org'')
                       (CreateStarted ''caljob-2700-1'')
                       (SyncTriggered ''acct1'' ''user@example.org'')
                       (SyncTriggered ''acct1'' ''user@example.org'')\<rparr>]\<rparr>"

text \<open>Two timed requests for the same calendar and the same hour that differ in their
  titles only.\<close>

definition standupArgs :: tool_args where
  "standupArgs = noArgs\<lparr>tbsyncUser := Some ''user@example.org'', calendarName := Some ''C'',
                         title := Some ''Standup'', allDay := Some False,
                         startArg := Some ''2026-02-04T09:00'',
                         endArg := Some ''2026-02-04T10:00''\<rparr>"

definition reviewArgs :: tool_args where
  "reviewArgs = standupArgs\<lparr>title := Some ''Budget review''\<rparr>"

text \<open>The run of the create workflow a request starts: the configuration reached from the
  registration by a list of resumptions.\<close>

definition createRun ::
  "int \<Rightarrow> tool_args \<Rightarrow> server_state \<Rightarrow> (int \<times> ext_env) list \<Rightarrow> create_cont \<times> server_state" where
  "createRun now args s ins =
     (let a = argsWithTag args;
          (c, s1) = registerWorkflow now (idempotencyKey a) a s
      in runTo ins c (beginWorkflow now c s1))"




definition noAccountEnv :: ext_env where
  "noAccountEnv = okEnv\<lparr>tbsync := okTbsync\<lparr>accounts := []\<rparr>\<rparr>"

definition noAccountRun :: "(int \<times> ext_env) list" where
  "noAccountRun = [(1200, noAccountEnv), (2700, noAccountEnv), (4200, noAccountEnv),
                   (4400, noAccountEnv), (5900, noAccountEnv), (6100, noAccountEnv)]"

text \<open>The exceptions that reach the loop of the bulk delete.\<close>

definition escapes :: "dispatch_outcome \<Rightarrow> bool" where
  "escapes out = (case out of CreateInstanceThrows e \<Rightarrow> True | _ \<Rightarrow> False)"



text \<open>
  Example surroundings of a bulk delete: one writable calendar; a conversion of date-time
  fields to microseconds that takes every month as 31 days; a calendar store that holds a
  table of events and answers a statement as SQLite does, \<open>LIKE\<close> matching without regard to
  the case of letters, \<open>%\<close> standing for any characters and \<open>_\<close> for any one.
\<close>

definition exampleCalendars :: "calendar list" where
  "exampleCalendars = [\<lparr>calId = ''cal-1'', calName = ''C'', readOnly = False\<rparr>]"

definition exampleNativeTime :: "dt_fields \<Rightarrow> int" where
  "exampleNativeTime f =
     int ((((y f * 12 + mo f) * 31 + d f) * 24 + hh f) * 60 + mm f) * 60000000"

fun likeMatch :: "string \<Rightarrow> string \<Rightarrow> bool" where
  "likeMatch [] t = (t = [])"
| "likeMatch (p # ps) [] = (p = CHR ''%'' \<and> likeMatch ps [])"
| "likeMatch (p # ps) (c # cs) =
     (if p = CHR ''%'' then likeMatch ps (c # cs) \<or> likeMatch (p # ps) cs
      else (p = CHR ''_'' \<or> lowerChar p = lowerChar c) \<and> likeMatch ps cs)"

record event_row =
  evCal :: string
  evStart :: int
  evId :: string
  evTitle :: string

definition tableStore :: "event_row list \<Rightarrow> sql_query \<Rightarrow> db_outcome" where
  "tableStore table q =
     Rows (map (\<lambda>e. \<lparr>rowId = evId e, rowTitle = evTitle e\<rparr>)
            (filter (\<lambda>e. evCal e = cal_id q \<and> evStart e \<ge> start_us q \<and> evStart e < end_us q
                          \<and> list_all (\<lambda>pat. likeMatch pat (toLowerCase (evTitle e))) (kws q))
               table))"

definition weekTable :: "event_row list" where
  "weekTable =
     [\<lparr>evCal = ''cal-1'', evStart = exampleNativeTime \<lparr>y = 2026, mo = 2, d = 2, hh = 9, mm = 0\<rparr>,
       evId = ''ev-1'', evTitle = ''Standup''\<rparr>,
      \<lparr>evCal = ''cal-1'', evStart = exampleNativeTime \<lparr>y = 2026, mo = 2, d = 4, hh = 14, mm = 0\<rparr>,
       evId = ''ev-2'', evTitle = ''Dentist''\<rparr>,
      \<lparr>evCal = ''cal-1'', evStart = exampleNativeTime \<lparr>y = 2026, mo = 2, d = 5, hh = 9, mm = 0\<rparr>,
       evId = ''ev-3'', evTitle = ''Team standup''\<rparr>,
      \<lparr>evCal = ''cal-1'', evStart = exampleNativeTime \<lparr>y = 2026, mo = 2, d = 12, hh = 9, mm = 0\<rparr>,
       evId = ''ev-4'', evTitle = ''Standup''\<rparr>,
      \<lparr>evCal = ''cal-2'', evStart = exampleNativeTime \<lparr>y = 2026, mo = 2, d = 3, hh = 9, mm = 0\<rparr>,
       evId = ''ev-5'', evTitle = ''Standup''\<rparr>]"

definition deleteArgs :: tool_args where
  "deleteArgs = noArgs\<lparr>tbsyncUser := Some ''user@example.org'', calendarName := Some ''C'',
                        startArg := Some ''2026-02-02T00:00'', endArg := Some ''2026-02-09T00:00'',
                        titleMustContainAll := Some [''standup'']\<rparr>"

definition weekEnv :: delete_env where
  "weekEnv = \<lparr>store = tableStore weekTable, closeFault = None, dispatch = (\<lambda>r. Accepted),
              postSyncEnv = okTbsync\<rparr>"

text \<open>The provider refuses to delete the event \<open>ev-3\<close>.\<close>

definition refusingEnv :: delete_env where
  "refusingEnv =
     weekEnv\<lparr>dispatch := (\<lambda>r. if rowId r = ''ev-3''
                              then DeleteItemThrows ''Error: NS_ERROR_FAILURE'' else Accepted)\<rparr>"

text \<open>Creating the event object fails for the event \<open>ev-3\<close>.\<close>

definition brokenEnv :: delete_env where
  "brokenEnv =
     weekEnv\<lparr>dispatch := (\<lambda>r. if rowId r = ''ev-3''
                              then CreateInstanceThrows ''Error: NS_ERROR_FAILURE'' else Accepted)\<rparr>"

text \<open>The body of the bulk delete that the example request starts, for a list of required
  substrings, and the state it starts from.\<close>

definition weekCont :: "string list option \<Rightarrow> delete_cont" where
  "weekCont needles =
     \<lparr>delJobId = WfJob 1000 1,
      delTarget = \<lparr>calId = ''cal-1'', calName = ''C'', readOnly = False\<rparr>,
      delLo = exampleNativeTime \<lparr>y = 2026, mo = 2, d = 2, hh = 0, mm = 0\<rparr>,
      delHi = exampleNativeTime \<lparr>y = 2026, mo = 2, d = 9, hh = 0, mm = 0\<rparr>,
      delNeedles = needles, delUser = Some ''user@example.org''\<rparr>"

definition weekState :: "string list option \<Rightarrow> server_state" where
  "weekState needles =
     snd (snd (syncAndDeleteEventsBySql exampleCalendars exampleNativeTime 1000
                 (deleteArgs\<lparr>titleMustContainAll := needles\<rparr>) initState))"




section \<open>Facts about the string functions\<close>

lemma startsWith_append: "startsWith (x @ r) x"
  by (induction x) auto



lemma endsWith_append: "endsWith (b @ x) x"
  by (simp add: endsWith_def startsWith_append)

lemma last_dropWhile: "dropWhile P xs \<noteq> [] \<Longrightarrow> last (dropWhile P xs) = last xs"
  by (induction xs) (auto split: if_splits)

lemma trim_fixed: "s \<noteq> [] \<Longrightarrow> \<not> isSpace (hd s) \<Longrightarrow> \<not> isSpace (last s) \<Longrightarrow> trim s = s"
proof -
  assume a: "s \<noteq> []" "\<not> isSpace (hd s)" "\<not> isSpace (last s)"
  then have 1: "dropWhile isSpace s = s" by (cases s) auto
  from a have "rev s \<noteq> []" "\<not> isSpace (hd (rev s))" by (auto simp: hd_rev)
  then have 2: "dropWhile isSpace (rev s) = rev s" by (cases "rev s") auto
  show ?thesis by (simp add: trim_def 1 2)
qed

lemma trim_ends:
  assumes "trim s \<noteq> []"
  shows "\<not> isSpace (hd (trim s))" and "\<not> isSpace (last (trim s))"
proof -
  let ?u = "dropWhile isSpace s"
  let ?v = "dropWhile isSpace (rev ?u)"
  from assms have v: "?v \<noteq> []" by (simp add: trim_def)
  have u: "?u \<noteq> []"
  proof
    assume "?u = []"
    then have "?v = dropWhile isSpace (rev [])" by (simp only:)
    with v show False by simp
  qed
  have "hd (trim s) = last ?v" using v by (simp add: trim_def hd_rev)
  also have "\<dots> = last (rev ?u)" using v by (rule last_dropWhile)
  also have "\<dots> = hd ?u" using u by (simp add: last_rev)
  finally have "hd (trim s) = hd ?u" .
  moreover have "\<not> isSpace (hd ?u)" using u by (rule hd_dropWhile)
  ultimately show "\<not> isSpace (hd (trim s))" by simp
  have "last (trim s) = hd ?v" using v by (simp add: trim_def last_rev)
  moreover have "\<not> isSpace (hd ?v)" using v by (rule hd_dropWhile)
  ultimately show "\<not> isSpace (last (trim s))" by simp
qed

lemma trim_trim: "trim (trim s) = trim s"
proof (cases "trim s = []")
  case True
  have "trim [] = []" by (simp add: trim_def)
  with True show ?thesis by simp
next
  case False
  then show ?thesis using trim_ends[OF False] by (intro trim_fixed) auto
qed

section \<open>Facts about the create workflow\<close>

lemma tagOf_argsWithTag_timed:
  "allDay a \<noteq> Some True \<Longrightarrow> mcpTag a = None \<Longrightarrow>
   tagOf (argsWithTag a) = (if shortTagForEvent a = [] then shortTagForEvent a else trim (shortTagForEvent a))"
  by (simp add: tagOf_def argsWithTag_def Let_def truthy_def strOrEmpty_def shortTagForEvent_def)

lemma key_timed:
  assumes "allDay a = Some False" "allDay b = Some False"
    "calendarId a = calendarId b" "calendarName a = calendarName b"
    "startArg a = startArg b" "endArg a = endArg b" "mcpTag a = None" "mcpTag b = None"
  shows "idempotencyKey (argsWithTag a) = idempotencyKey (argsWithTag b)"
  using assms
  by (simp add: idempotencyKey_def tagOf_def argsWithTag_def Let_def truthy_def strOrEmpty_def shortTagForEvent_def)

lemma key_allDay:
  assumes "allDay c = Some True"
  shows "(idempotencyKey (argsWithTag (c\<lparr>title := t1\<rparr>)) = idempotencyKey (argsWithTag (c\<lparr>title := t2\<rparr>)))
     = (withTagAtEnd t1 (Some (tagOf c)) = withTagAtEnd t2 (Some (tagOf c)))"
  using assms
  by (simp add: idempotencyKey_def tagOf_def argsWithTag_def Let_def truthy_def strOrEmpty_def shortTagForEvent_def)

lemma argsWithTag_fields [simp]:
  "tbsyncUser (argsWithTag a) = tbsyncUser a"
  "calendarId (argsWithTag a) = calendarId a"
  "calendarName (argsWithTag a) = calendarName a"
  "allDay (argsWithTag a) = allDay a"
  "date (argsWithTag a) = date a"
  "startArg (argsWithTag a) = startArg a"
  "endArg (argsWithTag a) = endArg a"
  by (simp_all add: argsWithTag_def Let_def)

lemma submit_duplicate:
  assumes "truthy (tbsyncUser b)" "idempotencyKey (argsWithTag b) = k"
    "idempotency s k = Some e" "ts e \<noteq> 0" "later - ts e \<le> IDEMPOTENCY_TTL_MS"
  shows "syncAndCreateCalendarEvent later b s
         = (AlreadyCreated k (created e), None, s\<lparr>idempotency := cleanupIdempotency later (idempotency s)\<rparr>)"
  using assms by (simp add: syncAndCreateCalendarEvent_def Let_def cleanupIdempotency_def)

lemma submit_fresh:
  assumes "truthy (tbsyncUser a)"
    "cleanupIdempotency now (idempotency s) (idempotencyKey (argsWithTag a)) = None"
  shows "syncAndCreateCalendarEvent now a s
         = (let k = idempotencyKey (argsWithTag a);
                cs = registerWorkflow now k (argsWithTag a) (s\<lparr>idempotency := cleanupIdempotency now (idempotency s)\<rparr>)
            in (CreateWorkflowStarted (wfJobId (fst cs)) k, Some (fst cs), beginWorkflow now (fst cs) (snd cs)))"
  using assms by (simp add: syncAndCreateCalendarEvent_def Let_def split: prod.splits)

lemma registerWorkflow_eq:
  "registerWorkflow now k a s =
    (\<lparr>pc = AwaitPreSync, wfJobId = WfJob now (Suc (workflowSeq s)), key = k, user = tbsyncUser a, taggedArgs = a\<rparr>,
     s\<lparr>workflowSeq := Suc (workflowSeq s),
       workflowJobs := (workflowJobs s)(WfJob now (Suc (workflowSeq s)) \<mapsto>
           \<lparr>jobId = WfJob now (Suc (workflowSeq s)), status = ''running'', createdAtMs = now, updatedAtMs = now,
                 step = ''start'',
                 meta = CreateMeta k (tbsyncUser a)
                          (if truthy (calendarId a) then calendarId a
                           else if truthy (calendarName a) then calendarName a else None),
                 result = NoResult, error = None\<rparr>),
       idempotency := (idempotency s)(k \<mapsto> \<lparr>ts = now, created = Pending (WfJob now (Suc (workflowSeq s)))\<rparr>)\<rparr>)"
  by (simp add: registerWorkflow_def newWorkflowJobId_def Let_def)

lemma updateJob_frame [simp]:
  "workflowSeq (updateJob w f s) = workflowSeq s"
  "idempotency (updateJob w f s) = idempotency s"
  "issued (updateJob w f s) = issued s"
  "calendarJobs (updateJob w f s) = calendarJobs s"
  "calendarJobSeq (updateJob w f s) = calendarJobSeq s"
  "dom (workflowJobs (updateJob w f s)) = dom (workflowJobs s)"
  by (auto simp: updateJob_def split: if_splits)

lemma logCalls_frame [simp]:
  "workflowSeq (logCalls cs s) = workflowSeq s"
  "idempotency (logCalls cs s) = idempotency s"
  "workflowJobs (logCalls cs s) = workflowJobs s"
  "calendarJobs (logCalls cs s) = calendarJobs s"
  "calendarJobSeq (logCalls cs s) = calendarJobSeq s"
  "issued (logCalls cs s) = issued s @ cs"
  by (auto simp: logCalls_def)

lemma resume_frame:
  assumes "resume now env c s = (c', s')"
  shows "workflowSeq s' = workflowSeq s" "dom (workflowJobs s') = dom (workflowJobs s)"
    "pc c' \<noteq> Finished \<Longrightarrow> idempotency s' = idempotency s"
    "wfJobId c' = wfJobId c" "key c' = key c"
proof -
  show "workflowSeq s' = workflowSeq s"
    using assms
    by (cases "pc c")
      (auto simp: resume_def failWorkflow_def Let_def split: prod.splits outcome.splits)
  show "dom (workflowJobs s') = dom (workflowJobs s)"
    using assms
    by (cases "pc c")
      (clarsimp simp: resume_def failWorkflow_def Let_def split: prod.splits outcome.splits)+
  show "pc c' \<noteq> Finished \<Longrightarrow> idempotency s' = idempotency s"
    using assms
    by (cases "pc c")
      (auto simp: resume_def failWorkflow_def Let_def split: prod.splits outcome.splits)
  show "wfJobId c' = wfJobId c"
    using assms
    by (cases "pc c")
      (auto simp: resume_def failWorkflow_def Let_def split: prod.splits outcome.splits)
  show "key c' = key c"
    using assms
    by (cases "pc c")
      (auto simp: resume_def failWorkflow_def Let_def split: prod.splits outcome.splits)
qed

lemma resume_finished: "pc c = Finished \<Longrightarrow> resume now env c s = (c, s)"
  by (simp add: resume_def)

lemma runTo_Nil [simp]: "runTo [] c s = (c, s)"
  by (simp add: runTo_def)

lemma runTo_Cons: "runTo ((now, env) # ins) c s = (case resume now env c s of (c', s') \<Rightarrow> runTo ins c' s')"
  by (simp add: runTo_def split: prod.splits)

lemma runTo_finished: "pc c = Finished \<Longrightarrow> runTo ins c s = (c, s)"
  by (induction ins) (auto simp: runTo_Cons resume_finished)





lemma wfIdsBounded_fresh: "wfIdsBounded s \<Longrightarrow> workflowJobs s (WfJob now (Suc (workflowSeq s))) = None"
proof (rule ccontr)
  assume inv: "wfIdsBounded s" and "workflowJobs s (WfJob now (Suc (workflowSeq s))) \<noteq> None"
  then have "Suc (workflowSeq s) \<le> workflowSeq s"
    unfolding wfIdsBounded_def by blast
  then show False by simp
qed

lemma wfIdsBounded_same:
  "dom (workflowJobs s') = dom (workflowJobs s) \<Longrightarrow> workflowSeq s' = workflowSeq s \<Longrightarrow>
   wfIdsBounded s' = wfIdsBounded s"
  by (auto simp: wfIdsBounded_def dom_def set_eq_iff)

lemma runTo_frame:
  "workflowSeq (snd (runTo ins c s)) = workflowSeq s
   \<and> dom (workflowJobs (snd (runTo ins c s))) = dom (workflowJobs s)"
proof (induction ins arbitrary: c s)
  case Nil
  then show ?case by simp
next
  case (Cons i ins)
  obtain now env where i: "i = (now, env)" by (cases i)
  obtain c' s' where r: "resume now env c s = (c', s')" by (cases "resume now env c s")
  have "runTo (i # ins) c s = runTo ins c' s'" by (simp add: i runTo_Cons r)
  with Cons.IH[of c' s'] resume_frame(1,2)[OF r] show ?case by simp
qed

lemma wfIdsBounded_runTo: "wfIdsBounded s \<Longrightarrow> wfIdsBounded (snd (runTo ins c s))"
  using runTo_frame[of ins c s] wfIdsBounded_same by blast

text \<open>What a request with an unseen or expired key registers.\<close>

lemma submit_registers:
  assumes user: "truthy (tbsyncUser args)"
    and k: "k = idempotencyKey (argsWithTag args)"
    and absent: "cleanupIdempotency now (idempotency s) k = None"
    and w: "w = WfJob now (Suc (workflowSeq s))"
    and c: "c = \<lparr>pc = AwaitPreSync, wfJobId = w, key = k, user = tbsyncUser args,
                  taggedArgs = argsWithTag args\<rparr>"
    and sReg: "sReg = snd (registerWorkflow now k (argsWithTag args)
                        (s\<lparr>idempotency := cleanupIdempotency now (idempotency s)\<rparr>))"
  shows "syncAndCreateCalendarEvent now args s
           = (CreateWorkflowStarted w k, Some c, beginWorkflow now c sReg)"
    and "dom (workflowJobs (beginWorkflow now c sReg)) = insert w (dom (workflowJobs s))"
    and "workflowSeq (beginWorkflow now c sReg) = Suc (workflowSeq s)"
    and "stepLabel w sReg = ''start''"
    and "idempotency sReg k = Some \<lparr>ts = now, created = Pending w\<rparr>"
    and "idempotency (beginWorkflow now c sReg)
           = (cleanupIdempotency now (idempotency s))(k \<mapsto> \<lparr>ts = now, created = Pending w\<rparr>)"
    and "map_option status (workflowJobs (beginWorkflow now c sReg) w) = Some ''running''"
    and "stepLabel w (beginWorkflow now c sReg) = ''preSync''"
proof -
  let ?s' = "s\<lparr>idempotency := cleanupIdempotency now (idempotency s)\<rparr>"
  have reg: "registerWorkflow now k (argsWithTag args) ?s' = (c, sReg)"
    unfolding sReg c w by (simp add: registerWorkflow_eq)
  show "syncAndCreateCalendarEvent now args s
           = (CreateWorkflowStarted w k, Some c, beginWorkflow now c sReg)"
    using submit_fresh[OF user absent[unfolded k]] reg k c by (simp add: Let_def)
  have sReg_eq: "sReg = ?s'\<lparr>workflowSeq := Suc (workflowSeq s),
       workflowJobs := (workflowJobs s)(w \<mapsto>
           \<lparr>jobId = w, status = ''running'', createdAtMs = now, updatedAtMs = now,
                 step = ''start'',
                 meta = CreateMeta k (tbsyncUser args)
                          (if truthy (calendarId args) then calendarId args
                           else if truthy (calendarName args) then calendarName args else None),
                 result = NoResult, error = None\<rparr>),
       idempotency := (cleanupIdempotency now (idempotency s))(k \<mapsto> \<lparr>ts = now, created = Pending w\<rparr>)\<rparr>"
    unfolding sReg w by (simp add: registerWorkflow_eq)
  show "dom (workflowJobs (beginWorkflow now c sReg)) = insert w (dom (workflowJobs s))"
    by (simp add: beginWorkflow_def sReg_eq)
  show "workflowSeq (beginWorkflow now c sReg) = Suc (workflowSeq s)"
    by (simp add: beginWorkflow_def sReg_eq)
  show "stepLabel w sReg = ''start''"
    by (simp add: sReg_eq stepLabel_def)
  show "idempotency sReg k = Some \<lparr>ts = now, created = Pending w\<rparr>"
    by (simp add: sReg_eq)
  show "idempotency (beginWorkflow now c sReg)
           = (cleanupIdempotency now (idempotency s))(k \<mapsto> \<lparr>ts = now, created = Pending w\<rparr>)"
    by (simp add: beginWorkflow_def sReg_eq)
  show "map_option status (workflowJobs (beginWorkflow now c sReg) w) = Some ''running''"
    by (simp add: beginWorkflow_def sReg_eq updateJob_def c)
  show "stepLabel w (beginWorkflow now c sReg) = ''preSync''"
    by (simp add: beginWorkflow_def sReg_eq updateJob_def c stepLabel_def)
qed

lemma wfIdsBounded_submit:
  assumes "wfIdsBounded s"
  shows "wfIdsBounded (snd (snd (syncAndCreateCalendarEvent now args s)))"
proof (cases "truthy (tbsyncUser args)")
  case False
  then show ?thesis using assms by (simp add: syncAndCreateCalendarEvent_def)
next
  case user: True
  let ?k = "idempotencyKey (argsWithTag args)"
  show ?thesis
  proof (cases "cleanupIdempotency now (idempotency s) ?k")
    case None
    note r = submit_registers[OF user refl None refl refl refl]
    have "wfIdsBounded (beginWorkflow now
            \<lparr>pc = AwaitPreSync, wfJobId = WfJob now (Suc (workflowSeq s)), key = ?k,
               user = tbsyncUser args, taggedArgs = argsWithTag args\<rparr>
            (snd (registerWorkflow now ?k (argsWithTag args)
                        (s\<lparr>idempotency := cleanupIdempotency now (idempotency s)\<rparr>))))"
      unfolding wfIdsBounded_def
    proof (intro allI impI)
      fix t n
      assume "workflowJobs (beginWorkflow now
            \<lparr>pc = AwaitPreSync, wfJobId = WfJob now (Suc (workflowSeq s)), key = ?k,
               user = tbsyncUser args, taggedArgs = argsWithTag args\<rparr>
            (snd (registerWorkflow now ?k (argsWithTag args)
                        (s\<lparr>idempotency := cleanupIdempotency now (idempotency s)\<rparr>)))) (WfJob t n) \<noteq> None"
      then have "WfJob t n \<in> insert (WfJob now (Suc (workflowSeq s))) (dom (workflowJobs s))"
        using r(2) by (auto simp: dom_def)
      then have "n \<le> Suc (workflowSeq s)"
        using assms by (fastforce simp: wfIdsBounded_def dom_def)
      then show "n \<le> workflowSeq (beginWorkflow now
            \<lparr>pc = AwaitPreSync, wfJobId = WfJob now (Suc (workflowSeq s)), key = ?k,
               user = tbsyncUser args, taggedArgs = argsWithTag args\<rparr>
            (snd (registerWorkflow now ?k (argsWithTag args)
                        (s\<lparr>idempotency := cleanupIdempotency now (idempotency s)\<rparr>))))"
        using r(3) by simp
    qed
    then show ?thesis using r(1) by simp
  next
    case (Some e)
    then show ?thesis using assms user
      by (simp add: syncAndCreateCalendarEvent_def Let_def wfIdsBounded_def)
  qed
qed

section \<open>The scenario request\<close>

lemma dentist_key: "idempotencyKey (argsWithTag dentistArgs) = dentistKey"
    by (simp add: idempotencyKey_def argsWithTag_def tagOf_def shortTagForEvent_def dentistArgs_def
        noArgs_def truthy_def strOrEmpty_def withTagAtEnd_def trim_def isSpace_def endsWith_def Let_def dentistKey_def)



lemma dentist_user: "truthy (tbsyncUser dentistArgs)"
  by (simp add: dentistArgs_def noArgs_def truthy_def)

lemma ok_sync:
  "tbsyncSyncAccountByUser okTbsync (Some ''user@example.org'')
     = (Returns (SyncTriggered ''acct1'' ''user@example.org''), [SyncAccount ''acct1''])"
  by (simp add: tbsyncSyncAccountByUser_def getTbSyncModule_def okTbsync_def Let_def
      strOrEmpty_def toLowerCase_def lowerChar_def trim_def isSpace_def)

section \<open>Deduplication of create requests\<close>




section \<open>Expiry of idempotency entries\<close>

text \<open>
  Claim C6. When more than the time-to-live has passed since the timestamp of the entry
  stored under a request's key, the clean-up that precedes the lookup removes the entry, as
  it removes every other entry that old; the request is answered with a new workflow, under
  an id that was not registered before, and the key then holds the pending entry of that
  workflow, whatever the old entry held.
\<close>

theorem expired_entry_starts_fresh_workflow:
  assumes user: "truthy (tbsyncUser args)"
    and inv: "wfIdsBounded s"
    and k: "k = idempotencyKey (argsWithTag args)"
    and entry: "idempotency s k = Some e"
    and expired: "now - ts e > IDEMPOTENCY_TTL_MS"
    and w: "w = WfJob now (Suc (workflowSeq s))"
    and after: "sAfter = snd (snd (syncAndCreateCalendarEvent now args s))"
  shows "cleanupIdempotency now (idempotency s) k = None
       \<and> fst (syncAndCreateCalendarEvent now args s) = CreateWorkflowStarted w k
       \<and> workflowJobs s w = None
       \<and> map_option status (workflowJobs sAfter w) = Some ''running''
       \<and> idempotency sAfter k = Some \<lparr>ts = now, created = Pending w\<rparr>
       \<and> (\<forall>k' e'. k' \<noteq> k \<and> idempotency s k' = Some e' \<and> now - ts e' > IDEMPOTENCY_TTL_MS
             \<longrightarrow> idempotency sAfter k' = None)"
proof -
  have absent: "cleanupIdempotency now (idempotency s) k = None"
    using entry expired by (simp add: cleanupIdempotency_def)
  note r = submit_registers[OF user k absent w refl refl]
  have fresh: "workflowJobs s w = None"
    unfolding w using inv by (rule wfIdsBounded_fresh)
  have purge: "\<forall>k' e'. k' \<noteq> k \<and> idempotency s k' = Some e' \<and> now - ts e' > IDEMPOTENCY_TTL_MS
             \<longrightarrow> idempotency sAfter k' = None"
    unfolding after r(1) using r(6) by (simp add: cleanupIdempotency_def)
  show ?thesis
    using absent fresh purge r(1,6,7) unfolding after by simp
qed

theorem expired_entry_starts_fresh_workflow_witness:
  "idempotency staleState dentistKey \<noteq> None
   \<and> cleanupIdempotency 21607001 (idempotency staleState) dentistKey = None
   \<and> fst (syncAndCreateCalendarEvent 21607001 dentistArgs staleState)
       = CreateWorkflowStarted (WfJob 21607001 1) dentistKey
   \<and> idempotency (snd (snd (syncAndCreateCalendarEvent 21607001 dentistArgs staleState)))
       dentistKey = Some \<lparr>ts = 21607001, created = Pending (WfJob 21607001 1)\<rparr>"
proof -
  have inv: "wfIdsBounded staleState"
    by (simp add: wfIdsBounded_def staleState_def initState_def)
  have entry: "idempotency staleState dentistKey
      = Some \<lparr>ts = 7000,
           created = Completed (SyncTriggered ''acct1'' ''user@example.org'')
                       (CreateStarted ''caljob-2700-1'')
                       (SyncTriggered ''acct1'' ''user@example.org'')
                       (SyncTriggered ''acct1'' ''user@example.org'')\<rparr>"
    by (simp add: staleState_def initState_def)
  have expired: "21607001 - ts \<lparr>ts = 7000,
           created = Completed (SyncTriggered ''acct1'' ''user@example.org'')
                       (CreateStarted ''caljob-2700-1'')
                       (SyncTriggered ''acct1'' ''user@example.org'')
                       (SyncTriggered ''acct1'' ''user@example.org'')\<rparr> > IDEMPOTENCY_TTL_MS"
    by (simp add: IDEMPOTENCY_TTL_MS_def)
  have seq: "Suc (workflowSeq staleState) = 1"
    by (simp add: staleState_def initState_def)
  from expired_entry_starts_fresh_workflow[OF dentist_user inv dentist_key[symmetric] entry
      expired refl refl]
  show ?thesis using entry seq by simp
qed

section \<open>The key of a timed request\<close>

text \<open>
  Claim C9. Two timed requests (\<open>allDay = false\<close>) without a tag of the caller's, for the same
  calendar, start and end, have the same idempotency key whatever their titles are; when
  the first is registered, the second, made within the time-to-live, is answered as a
  duplicate of it. For an all-day request the key ends with the tagged title, so two
  all-day requests that differ in their titles only have the same key exactly when their
  tagged titles are equal.
\<close>

theorem timed_key_ignores_title:
  assumes timed: "allDay a = Some False" "allDay b = Some False"
    and same: "calendarId a = calendarId b" "calendarName a = calendarName b"
      "startArg a = startArg b" "endArg a = endArg b"
    and notag: "mcpTag a = None" "mcpTag b = None"
    and users: "truthy (tbsyncUser a)" "truthy (tbsyncUser b)"
    and unseen: "idempotency s (idempotencyKey (argsWithTag a)) = None"
    and clock: "now \<noteq> 0"
    and ttl: "later - now \<le> IDEMPOTENCY_TTL_MS"
    and whole: "allDay c = Some True"
  shows "idempotencyKey (argsWithTag a) = idempotencyKey (argsWithTag b)
       \<and> fst (syncAndCreateCalendarEvent now a s)
           = CreateWorkflowStarted (WfJob now (Suc (workflowSeq s))) (idempotencyKey (argsWithTag a))
       \<and> fst (syncAndCreateCalendarEvent later b (snd (snd (syncAndCreateCalendarEvent now a s))))
           = AlreadyCreated (idempotencyKey (argsWithTag a))
               (Pending (WfJob now (Suc (workflowSeq s))))
       \<and> ((idempotencyKey (argsWithTag (c\<lparr>title := t1\<rparr>))
             = idempotencyKey (argsWithTag (c\<lparr>title := t2\<rparr>)))
          = (withTagAtEnd t1 (Some (tagOf c)) = withTagAtEnd t2 (Some (tagOf c))))"
proof -
  let ?k = "idempotencyKey (argsWithTag a)"
  let ?w = "WfJob now (Suc (workflowSeq s))"
  have keys: "?k = idempotencyKey (argsWithTag b)"
    using timed same notag by (rule key_timed)
  have absent: "cleanupIdempotency now (idempotency s) ?k = None"
    using unseen by (simp add: cleanupIdempotency_def)
  note r = submit_registers[OF users(1) refl absent refl refl refl]
  have entry: "idempotency (snd (snd (syncAndCreateCalendarEvent now a s))) ?k
       = Some \<lparr>ts = now, created = Pending ?w\<rparr>"
    unfolding r(1) using r(6) by simp
  have second: "fst (syncAndCreateCalendarEvent later b (snd (snd (syncAndCreateCalendarEvent now a s))))
           = AlreadyCreated ?k (Pending ?w)"
    using submit_duplicate[OF users(2) keys[symmetric] entry] clock ttl by simp
  show ?thesis
    using keys r(1) second key_allDay[OF whole] by simp
qed

theorem timed_key_ignores_title_witness:
  "idempotencyKey (argsWithTag standupArgs) = ''C|2026-02-04T09:00-2026-02-04T10:00|mcp:20260204-0900-1000''
   \<and> idempotencyKey (argsWithTag reviewArgs) = ''C|2026-02-04T09:00-2026-02-04T10:00|mcp:20260204-0900-1000''
   \<and> fst (syncAndCreateCalendarEvent 1000 standupArgs initState)
       = CreateWorkflowStarted (WfJob 1000 1) ''C|2026-02-04T09:00-2026-02-04T10:00|mcp:20260204-0900-1000''
   \<and> fst (syncAndCreateCalendarEvent 5000 reviewArgs
             (snd (snd (syncAndCreateCalendarEvent 1000 standupArgs initState))))
       = AlreadyCreated ''C|2026-02-04T09:00-2026-02-04T10:00|mcp:20260204-0900-1000''
           (Pending (WfJob 1000 1))
   \<and> idempotencyKey (argsWithTag (dentistArgs\<lparr>title := Some ''Dentist''\<rparr>))
       \<noteq> idempotencyKey (argsWithTag (dentistArgs\<lparr>title := Some ''Haircut''\<rparr>))"
proof -
  have k: "idempotencyKey (argsWithTag standupArgs)
      = ''C|2026-02-04T09:00-2026-02-04T10:00|mcp:20260204-0900-1000''"
    by (simp add: idempotencyKey_def argsWithTag_def tagOf_def shortTagForEvent_def
        standupArgs_def noArgs_def truthy_def strOrEmpty_def trim_def isSpace_def slice_def Let_def)
  have f: "allDay standupArgs = Some False" "allDay reviewArgs = Some False"
    "calendarId standupArgs = calendarId reviewArgs"
    "calendarName standupArgs = calendarName reviewArgs"
    "startArg standupArgs = startArg reviewArgs" "endArg standupArgs = endArg reviewArgs"
    "mcpTag standupArgs = None" "mcpTag reviewArgs = None"
    "truthy (tbsyncUser standupArgs)" "truthy (tbsyncUser reviewArgs)"
    by (simp_all add: standupArgs_def reviewArgs_def noArgs_def truthy_def)
  have unseen: "idempotency initState (idempotencyKey (argsWithTag standupArgs)) = None"
    by (simp add: initState_def)
  have ttl: "(5000::int) - 1000 \<le> IDEMPOTENCY_TTL_MS"
    by (simp add: IDEMPOTENCY_TTL_MS_def)
  have whole: "allDay dentistArgs = Some True"
    by (simp add: dentistArgs_def noArgs_def)
  have tag: "tagOf dentistArgs = ''mcp:20260204''"
    by (simp add: tagOf_def shortTagForEvent_def dentistArgs_def noArgs_def truthy_def
        strOrEmpty_def)
  have titles: "withTagAtEnd (Some ''Dentist'') (Some ''mcp:20260204'')
      \<noteq> withTagAtEnd (Some ''Haircut'') (Some ''mcp:20260204'')"
    by (simp add: withTagAtEnd_def Let_def strOrEmpty_def trim_def isSpace_def endsWith_def)
  have seq: "Suc (workflowSeq initState) = 1"
    by (simp add: initState_def)
  note t = timed_key_ignores_title[OF f unseen _ ttl whole,
      where ?t1.0 = "Some ''Dentist''" and ?t2.0 = "Some ''Haircut''"]
  show ?thesis
    using t k tag titles seq by simp
qed

section \<open>The step labels of the create workflow\<close>











lemma no_account_sync:
  "tbsyncSyncAccountByUser (okTbsync\<lparr>accounts := []\<rparr>) (Some ''user@example.org'')
     = (Returns (SyncError ''No TbSync account found with user=user@example.org''), [])"
  by (simp add: tbsyncSyncAccountByUser_def getTbSyncModule_def okTbsync_def Let_def
      strOrEmpty_def toLowerCase_def lowerChar_def trim_def isSpace_def)

lemma dentist_register:
  "registerWorkflow 1000 (idempotencyKey (argsWithTag dentistArgs)) (argsWithTag dentistArgs)
     initState
   = (dentistCont,
      \<lparr>workflowSeq = 1,
       workflowJobs = [WfJob 1000 1 \<mapsto>
          \<lparr>jobId = WfJob 1000 1, status = ''running'', createdAtMs = 1000, updatedAtMs = 1000,
           step = ''start'', meta = CreateMeta dentistKey (Some ''user@example.org'') (Some ''C''),
           result = NoResult, error = None\<rparr>],
       idempotency = [dentistKey \<mapsto> \<lparr>ts = 1000, created = Pending (WfJob 1000 1)\<rparr>],
       calendarJobSeq = 0, calendarJobs = Map.empty, issued = []\<rparr>)"
proof -
  have f: "tbsyncUser dentistArgs = Some ''user@example.org''" "calendarId dentistArgs = None"
     "calendarName dentistArgs = Some ''C''"
    by (simp_all add: dentistArgs_def noArgs_def)
  show ?thesis
    by (simp add: dentist_key registerWorkflow_eq dentistCont_def f truthy_def)
      (simp add: initState_def)
qed





section \<open>A failing pre-sync\<close>

lemma sync_calls_are_syncs:
  "x \<in> set (snd (tbsyncSyncAccountByUser env u)) \<Longrightarrow> \<exists>i. x = SyncAccount i"
  by (auto simp: tbsyncSyncAccountByUser_def Let_def
      split: outcome.splits option.splits if_splits)

text \<open>
  When the pre-sync throws, the body of the workflow ends at once: the record gets the
  status \<open>error\<close> and the exception's own text, \<open>createCalendarEvent\<close> is not called, and
  nothing happens to the workflow afterwards.
\<close>

lemma presync_throw_aborts:
  assumes at: "pc c = AwaitPreSync"
    and job: "workflowJobs s (wfJobId c) = Some j"
    and throws: "fst (tbsyncSyncAccountByUser (tbsync env) (user c)) = Throws e"
    and r: "resume now env c s = (c', s')"
  shows "pc c' = Finished"
    and "map_option status (workflowJobs s' (wfJobId c)) = Some ''error''"
    and "map_option error (workflowJobs s' (wfJobId c)) = Some (Some e)"
    and "CreateCalendarEvent a \<in> set (issued s') \<Longrightarrow> CreateCalendarEvent a \<in> set (issued s)"
    and "runTo ins c' s' = (c', s')"
proof -
  obtain calls where sync: "tbsyncSyncAccountByUser (tbsync env) (user c) = (Throws e, calls)"
    using throws by (cases "tbsyncSyncAccountByUser (tbsync env) (user c)") auto
  from r at sync have c': "c' = c\<lparr>pc := Finished\<rparr>"
    and s': "s' = updateJob (wfJobId c)
        (\<lambda>job. job\<lparr>status := ''error'', step := ''error'', updatedAtMs := now, error := Some e\<rparr>)
        (logCalls calls s)"
    by (auto simp: resume_def failWorkflow_def Let_def)
  show "pc c' = Finished" by (simp add: c')
  then show "runTo ins c' s' = (c', s')" by (rule runTo_finished)
  show "map_option status (workflowJobs s' (wfJobId c)) = Some ''error''"
    using job by (simp add: s' updateJob_def logCalls_def)
  show "map_option error (workflowJobs s' (wfJobId c)) = Some (Some e)"
    using job by (simp add: s' updateJob_def logCalls_def)
  show "CreateCalendarEvent a \<in> set (issued s)" if "CreateCalendarEvent a \<in> set (issued s')"
  proof -
    from that have "CreateCalendarEvent a \<in> set (issued s) \<or> CreateCalendarEvent a \<in> set calls"
      by (auto simp: s')
    moreover have "CreateCalendarEvent a \<notin> set calls"
      using sync_calls_are_syncs[of "CreateCalendarEvent a" "tbsync env" "user c"] sync by auto
    ultimately show ?thesis by blast
  qed
qed

text \<open>
  Claim C5. The pre-sync also fails by returning an error object, when no TbSync account or
  more than one belongs to the user. The workflow does not look at what the pre-sync
  returned: for a user without an account it goes on to call \<open>createCalendarEvent\<close>, runs
  both post-syncs and ends with the status \<open>done\<close> and no error, the pre-sync's error being
  a part of its result.
\<close>

theorem presync_error_result_does_not_abort:
  "fst (tbsyncSyncAccountByUser (tbsync noAccountEnv) (Some ''user@example.org''))
     = Returns (SyncError ''No TbSync account found with user=user@example.org'')
   \<and> pc (fst (createRun 1000 dentistArgs initState noAccountRun)) = Finished
   \<and> issued (snd (createRun 1000 dentistArgs initState noAccountRun))
       = [CreateCalendarEvent (argsWithTag dentistArgs)]
   \<and> map_option status
        (workflowJobs (snd (createRun 1000 dentistArgs initState noAccountRun)) (WfJob 1000 1))
       = Some ''done''
   \<and> map_option error
        (workflowJobs (snd (createRun 1000 dentistArgs initState noAccountRun)) (WfJob 1000 1))
       = Some None
   \<and> map_option result
        (workflowJobs (snd (createRun 1000 dentistArgs initState noAccountRun)) (WfJob 1000 1))
       = Some (CreateResult
                 (SyncError ''No TbSync account found with user=user@example.org'')
                 (CreateStarted ''caljob-2700-1'')
                 (SyncError ''No TbSync account found with user=user@example.org'')
                 (SyncError ''No TbSync account found with user=user@example.org''))"
  by (simp add: createRun_def dentist_register beginWorkflow_def updateJob_def
      noAccountRun_def noAccountEnv_def runTo_Cons resume_def dentistCont_def okEnv_def
      no_account_sync logCalls_def Let_def)

section \<open>Malformed time ranges\<close>

lemma makeTimedRange_malformed:
  assumes "parseDateTimeLocal startStr = None \<or> parseDateTimeLocal endStr = None
     \<or> (\<exists>sf ef. parseDateTimeLocal startStr = Some sf \<and> parseDateTimeLocal endStr = Some ef
            \<and> nativeTime ef \<le> nativeTime sf)"
  shows "makeTimedRange nativeTime startStr endStr = BadFormat
     \<or> makeTimedRange nativeTime startStr endStr = RangeError ''end must be after start''"
  using assms by (auto simp: makeTimedRange_def split: option.splits)

text \<open>
  Claim C8. When the start or the end of a bulk-delete request does not parse as
  \<open>YYYY-MM-DDTHH:MM\<close>, or the end is not after the start, the call returns an error at once:
  no workflow job is registered, the body that queries the store and dispatches the deletes
  is not started, and the registries and the log of issued calls are as before. When the
  checks that come before the range pass, the error is the one about the range.
\<close>

theorem malformed_range_fails_before_job:
  assumes bad: "parseDateTimeLocal (startArg args) = None \<or> parseDateTimeLocal (endArg args) = None
     \<or> (\<exists>sf ef. parseDateTimeLocal (startArg args) = Some sf
            \<and> parseDateTimeLocal (endArg args) = Some ef \<and> nativeTime ef \<le> nativeTime sf)"
  shows "\<exists>msg. syncAndDeleteEventsBySql calendars nativeTime now args s = (ErrorResponse msg, None, s)
     \<and> (truthy (tbsyncUser args) \<and> truthy (startArg args) \<and> truthy (endArg args)
          \<and> (\<exists>target. resolveCalendar calendars args = Some target \<and> \<not> readOnly target)
        \<longrightarrow> msg = ''Invalid datetime format (expected YYYY-MM-DDTHH:MM): start=''
                    @ strOrEmpty (startArg args) @ '' end='' @ strOrEmpty (endArg args)
            \<or> msg = ''end must be after start'')"
proof -
  from makeTimedRange_malformed[OF bad]
  have "makeTimedRange nativeTime (startArg args) (endArg args) = BadFormat
     \<or> makeTimedRange nativeTime (startArg args) (endArg args) = RangeError ''end must be after start''"
    .
  then show ?thesis
    by (auto simp: syncAndDeleteEventsBySql_def split: option.splits)
qed

lemma parse_examples:
  "parseDateTimeLocal (Some ''next tuesday'') = None"
  "parseDateTimeLocal (Some ''2026-02-02T00:00'') = Some \<lparr>y = 2026, mo = 2, d = 2, hh = 0, mm = 0\<rparr>"
  "parseDateTimeLocal (Some ''2026-02-09T00:00'') = Some \<lparr>y = 2026, mo = 2, d = 9, hh = 0, mm = 0\<rparr>"
  "parseDateTimeLocal (Some ''2026-02-09 00:00 '') = Some \<lparr>y = 2026, mo = 2, d = 9, hh = 0, mm = 0\<rparr>"
  "parseDateTimeLocal (Some ''2026-2-9T00:00'') = None"
  by (simp_all add: parseDateTimeLocal_def strOrEmpty_def trim_def isSpace_def slice_def
      isDigit_def parseDigits_def digitVal_def Let_def)

lemma delete_args_fields:
  "tbsyncUser deleteArgs = Some ''user@example.org''" "calendarId deleteArgs = None"
  "calendarName deleteArgs = Some ''C''" "startArg deleteArgs = Some ''2026-02-02T00:00''"
  "endArg deleteArgs = Some ''2026-02-09T00:00''"
  "titleMustContainAll deleteArgs = Some [''standup'']"
  by (simp_all add: deleteArgs_def noArgs_def)

lemma example_calendar:
  "resolveCalendar exampleCalendars (deleteArgs\<lparr>startArg := a, endArg := b, titleMustContainAll := n\<rparr>)
     = Some \<lparr>calId = ''cal-1'', calName = ''C'', readOnly = False\<rparr>"
  by (simp add: resolveCalendar_def exampleCalendars_def delete_args_fields truthy_def
      strOrEmpty_def)

theorem malformed_range_fails_before_job_witness:
  "syncAndDeleteEventsBySql exampleCalendars exampleNativeTime 1000
     (deleteArgs\<lparr>startArg := Some ''next tuesday''\<rparr>) initState
     = (ErrorResponse ''Invalid datetime format (expected YYYY-MM-DDTHH:MM): start=next tuesday end=2026-02-09T00:00'',
        None, initState)
   \<and> syncAndDeleteEventsBySql exampleCalendars exampleNativeTime 1000
     (deleteArgs\<lparr>startArg := Some ''2026-02-09T00:00'', endArg := Some ''2026-02-02T00:00''\<rparr>)
     initState
     = (ErrorResponse ''end must be after start'', None, initState)"
proof -
  let ?a = "deleteArgs\<lparr>startArg := Some ''next tuesday''\<rparr>"
  let ?b = "deleteArgs\<lparr>startArg := Some ''2026-02-09T00:00'', endArg := Some ''2026-02-02T00:00''\<rparr>"
  have cal: "resolveCalendar exampleCalendars ?a = Some \<lparr>calId = ''cal-1'', calName = ''C'', readOnly = False\<rparr>"
    "resolveCalendar exampleCalendars ?b = Some \<lparr>calId = ''cal-1'', calName = ''C'', readOnly = False\<rparr>"
    using example_calendar[where a = "Some ''next tuesday''" and b = "Some ''2026-02-09T00:00''"
        and n = "Some [''standup'']"]
      example_calendar[where a = "Some ''2026-02-09T00:00''" and b = "Some ''2026-02-02T00:00''"
        and n = "Some [''standup'']"]
    by (simp_all add: deleteArgs_def noArgs_def)
  have bad_a: "parseDateTimeLocal (startArg ?a) = None \<or> parseDateTimeLocal (endArg ?a) = None
     \<or> (\<exists>sf ef. parseDateTimeLocal (startArg ?a) = Some sf
            \<and> parseDateTimeLocal (endArg ?a) = Some ef \<and> exampleNativeTime ef \<le> exampleNativeTime sf)"
    by (simp add: parse_examples)
  have bad_b: "parseDateTimeLocal (startArg ?b) = None \<or> parseDateTimeLocal (endArg ?b) = None
     \<or> (\<exists>sf ef. parseDateTimeLocal (startArg ?b) = Some sf
            \<and> parseDateTimeLocal (endArg ?b) = Some ef \<and> exampleNativeTime ef \<le> exampleNativeTime sf)"
    by (simp add: parse_examples exampleNativeTime_def)
  have range_a: "makeTimedRange exampleNativeTime (Some ''next tuesday'') (Some ''2026-02-09T00:00'')
      = BadFormat"
    by (simp add: makeTimedRange_def parse_examples)
  have range_b: "makeTimedRange exampleNativeTime (Some ''2026-02-09T00:00'') (Some ''2026-02-02T00:00'')
      = RangeError ''end must be after start''"
    by (simp add: makeTimedRange_def parse_examples exampleNativeTime_def)
  from malformed_range_fails_before_job[OF bad_a, of exampleCalendars 1000 initState]
  obtain ma where a: "syncAndDeleteEventsBySql exampleCalendars exampleNativeTime 1000 ?a initState
      = (ErrorResponse ma, None, initState)"
    by blast
  from malformed_range_fails_before_job[OF bad_b, of exampleCalendars 1000 initState]
  obtain mb where b: "syncAndDeleteEventsBySql exampleCalendars exampleNativeTime 1000 ?b initState
      = (ErrorResponse mb, None, initState)"
    by blast
  have "fst (syncAndDeleteEventsBySql exampleCalendars exampleNativeTime 1000 ?a initState)
      = ErrorResponse ''Invalid datetime format (expected YYYY-MM-DDTHH:MM): start=next tuesday end=2026-02-09T00:00''"
    by (simp add: syncAndDeleteEventsBySql_def cal range_a delete_args_fields truthy_def
        strOrEmpty_def)
  with a have ma: "ma = ''Invalid datetime format (expected YYYY-MM-DDTHH:MM): start=next tuesday end=2026-02-09T00:00''"
    by simp
  have "fst (syncAndDeleteEventsBySql exampleCalendars exampleNativeTime 1000 ?b initState)
      = ErrorResponse ''end must be after start''"
    by (simp add: syncAndDeleteEventsBySql_def cal range_b delete_args_fields truthy_def
        strOrEmpty_def)
  with b have mb: "mb = ''end must be after start''"
    by simp
  from a b ma mb show ?thesis by simp
qed

text \<open>
  The claim as stated speaks of strings that are not a wall-clock time. The pattern asks
  for digits only, so a string with a thirteenth month, a forty-fifth day and an hour 99
  passes it; with an end after the start the call registers a workflow job.
\<close>

theorem out_of_range_fields_accepted:
  "parseDateTimeLocal (Some ''2026-13-45T99:99'')
     = Some \<lparr>y = 2026, mo = 13, d = 45, hh = 99, mm = 99\<rparr>
   \<and> fst (syncAndDeleteEventsBySql exampleCalendars exampleNativeTime 1000
            (deleteArgs\<lparr>startArg := Some ''2026-13-45T99:99'',
                         endArg := Some ''2027-12-01T00:00''\<rparr>) initState)
     = DeleteWorkflowStarted (WfJob 1000 1)
   \<and> map_option step
        (workflowJobs
           (snd (snd (syncAndDeleteEventsBySql exampleCalendars exampleNativeTime 1000
                        (deleteArgs\<lparr>startArg := Some ''2026-13-45T99:99'',
                                     endArg := Some ''2027-12-01T00:00''\<rparr>) initState)))
           (WfJob 1000 1))
     = Some ''querySql''"
proof -
  have p: "parseDateTimeLocal (Some ''2026-13-45T99:99'')
       = Some \<lparr>y = 2026, mo = 13, d = 45, hh = 99, mm = 99\<rparr>"
    "parseDateTimeLocal (Some ''2027-12-01T00:00'')
       = Some \<lparr>y = 2027, mo = 12, d = 1, hh = 0, mm = 0\<rparr>"
    by (simp_all add: parseDateTimeLocal_def strOrEmpty_def trim_def isSpace_def slice_def
        isDigit_def parseDigits_def digitVal_def Let_def)
  have r: "makeTimedRange exampleNativeTime (Some ''2026-13-45T99:99'') (Some ''2027-12-01T00:00'')
      = Range (exampleNativeTime \<lparr>y = 2026, mo = 13, d = 45, hh = 99, mm = 99\<rparr>)
              (exampleNativeTime \<lparr>y = 2027, mo = 12, d = 1, hh = 0, mm = 0\<rparr>)"
    by (simp add: makeTimedRange_def p) (simp add: exampleNativeTime_def)
  show ?thesis
    using example_calendar[where a = "Some ''2026-13-45T99:99''" and b = "Some ''2027-12-01T00:00''"
        and n = "Some [''standup'']"]
    by (simp add: p(1) syncAndDeleteEventsBySql_def r delete_args_fields truthy_def
        newWorkflowJobId_def deleteArgs_def noArgs_def initState_def)
qed

section \<open>The fan-out of the bulk delete\<close>

lemma startDeleteItemJob_frame:
  "workflowJobs (snd (startDeleteItemJob now target it reason thr s)) = workflowJobs s"
  "workflowSeq (snd (startDeleteItemJob now target it reason thr s)) = workflowSeq s"
  "idempotency (snd (startDeleteItemJob now target it reason thr s)) = idempotency s"
  "calendarJobSeq (snd (startDeleteItemJob now target it reason thr s)) = Suc (calendarJobSeq s)"
  "issued (snd (startDeleteItemJob now target it reason thr s))
     = issued s @ [DeleteItem (calId target) (rowId it)]"
  by (simp_all add: startDeleteItemJob_def newCalendarJobId_def logCalls_def Let_def)

text \<open>An exception of the provider's \<open>deleteItem\<close> ends up in the calendar job of the
  candidate, which is registered with the status \<open>error\<close>.\<close>

lemma startDeleteItemJob_records_error:
  "calendarJobs (snd (startDeleteItemJob now target it reason (Some e) s))
     (CalJob now (Suc (calendarJobSeq s)))
   = Some \<lparr>cjJobId = CalJob now (Suc (calendarJobSeq s)), cjStatus = ''error'',
            cjCreatedAtMs = now, cjReason = reason, cjTitle = rowTitle it, cjError = Some e,
            cjDeletedId = (if rowId it \<noteq> [] then Some (rowId it) else None)\<rparr>"
  by (simp add: startDeleteItemJob_def newCalendarJobId_def logCalls_def Let_def)

lemma dispatchAll_effect:
  "dispatchAll now target disp ids (t, s) = (t', s') \<Longrightarrow>
   candidateCount t' = candidateCount t \<and> sample t' = sample t
   \<and> deleteTriggered t' = deleteTriggered t + length (filter (\<lambda>r. \<not> escapes (disp r)) ids)
   \<and> deleteErrors t' = deleteErrors t + length (filter (\<lambda>r. escapes (disp r)) ids)
   \<and> workflowJobs s' = workflowJobs s \<and> workflowSeq s' = workflowSeq s
   \<and> idempotency s' = idempotency s
   \<and> calendarJobSeq s' = calendarJobSeq s + length (filter (\<lambda>r. \<not> escapes (disp r)) ids)
   \<and> issued s' = issued s @ map (\<lambda>r. DeleteItem (calId target) (rowId r))
                               (filter (\<lambda>r. \<not> escapes (disp r)) ids)"
proof (induction ids arbitrary: t s)
  case Nil
  then show ?case by simp
next
  case (Cons it ids)
  show ?case
  proof (cases "disp it")
    case (CreateInstanceThrows e)
    with Cons.prems have "dispatchAll now target disp ids (t\<lparr>deleteErrors := deleteErrors t + 1\<rparr>, s)
        = (t', s')"
      by simp
    from Cons.IH[OF this] CreateInstanceThrows show ?thesis
      by (simp add: escapes_def)
  next
    case (DeleteItemThrows e)
    with Cons.prems have "dispatchAll now target disp ids
        (t\<lparr>deleteTriggered := deleteTriggered t + 1\<rparr>,
         snd (startDeleteItemJob now target it ''sqlBulkDelete'' (Some e) s)) = (t', s')"
      by simp
    from Cons.IH[OF this] DeleteItemThrows show ?thesis
      by (simp add: escapes_def startDeleteItemJob_frame)
  next
    case Accepted
    with Cons.prems have "dispatchAll now target disp ids
        (t\<lparr>deleteTriggered := deleteTriggered t + 1\<rparr>,
         snd (startDeleteItemJob now target it ''sqlBulkDelete'' None s)) = (t', s')"
      by simp
    from Cons.IH[OF this] Accepted show ?thesis
      by (simp add: escapes_def startDeleteItemJob_frame)
  qed
qed

lemma tally_split:
  "length (filter (\<lambda>r. \<not> escapes (disp r)) ids) + length (filter (\<lambda>r. escapes (disp r)) ids)
     = length ids"
  using sum_length_filter_compl[of "\<lambda>r. \<not> escapes (disp r)" ids] by simp

lemma runSqlDelete_rows:
  assumes job: "workflowJobs s (delJobId c) = Some j"
    and rows: "store env (buildQuery (delTarget c) (delLo c) (delHi c) (delNeedles c)) = Rows ids"
    and close: "closeFault env = None"
  shows "workflowJobs (runSqlDelete now env c s) (delJobId c)
         = Some (j\<lparr>status := ''done'', step := ''done'', updatedAtMs := now,
                   result := DeleteResult
                     \<lparr>candidateCount = length ids,
                      deleteTriggered = length (filter (\<lambda>r. \<not> escapes (dispatch env r)) ids),
                      deleteErrors = length (filter (\<lambda>r. escapes (dispatch env r)) ids),
                      sample = take 10 ids\<rparr>\<rparr>)"
    and "issued (runSqlDelete now env c s)
         = issued s @ map (\<lambda>r. DeleteItem (calId (delTarget c)) (rowId r))
                        (filter (\<lambda>r. \<not> escapes (dispatch env r)) ids)
           @ snd (tbsyncSyncAccountByUser (postSyncEnv env) (delUser c))
           @ snd (tbsyncSyncAccountByUser (postSyncEnv env) (delUser c))"
    and "calendarJobSeq (runSqlDelete now env c s)
         = calendarJobSeq s + length (filter (\<lambda>r. \<not> escapes (dispatch env r)) ids)"
proof -
  let ?w = "delJobId c"
  let ?t0 = "\<lparr>candidateCount = length ids, deleteTriggered = 0, deleteErrors = 0,
              sample = take 10 ids\<rparr>"
  let ?s1 = "updateJob ?w (\<lambda>job. job\<lparr>result := DeleteResult ?t0, updatedAtMs := now,
                                       step := ''delete''\<rparr>) s"
  obtain t s2 where d: "dispatchAll now (delTarget c) (dispatch env) ids (?t0, ?s1) = (t, s2)"
    by (cases "dispatchAll now (delTarget c) (dispatch env) ids (?t0, ?s1)")
  note e = dispatchAll_effect[OF d]
  have t: "t = \<lparr>candidateCount = length ids,
                deleteTriggered = length (filter (\<lambda>r. \<not> escapes (dispatch env r)) ids),
                deleteErrors = length (filter (\<lambda>r. escapes (dispatch env r)) ids),
                sample = take 10 ids\<rparr>"
    using e by (cases t) simp
  have jobs2: "workflowJobs s2 = workflowJobs ?s1" using e by simp
  have run: "runSqlDelete now env c s
      = updateJob ?w (\<lambda>job. job\<lparr>status := ''done'', step := ''done'', updatedAtMs := now\<rparr>)
          (logCalls (snd (tbsyncSyncAccountByUser (postSyncEnv env) (delUser c))
                     @ snd (tbsyncSyncAccountByUser (postSyncEnv env) (delUser c)))
             (updateJob ?w (\<lambda>job. job\<lparr>step := ''postSync'', updatedAtMs := now\<rparr>)
                (updateJob ?w (\<lambda>job. job\<lparr>result := DeleteResult t, updatedAtMs := now\<rparr>) s2)))"
    using rows close d by (simp add: runSqlDelete_def Let_def)
  show "workflowJobs (runSqlDelete now env c s) (delJobId c)
         = Some (j\<lparr>status := ''done'', step := ''done'', updatedAtMs := now,
                   result := DeleteResult
                     \<lparr>candidateCount = length ids,
                      deleteTriggered = length (filter (\<lambda>r. \<not> escapes (dispatch env r)) ids),
                      deleteErrors = length (filter (\<lambda>r. escapes (dispatch env r)) ids),
                      sample = take 10 ids\<rparr>\<rparr>)"
    unfolding run using job jobs2 t by (simp add: updateJob_def logCalls_def)
  show "issued (runSqlDelete now env c s)
         = issued s @ map (\<lambda>r. DeleteItem (calId (delTarget c)) (rowId r))
                        (filter (\<lambda>r. \<not> escapes (dispatch env r)) ids)
           @ snd (tbsyncSyncAccountByUser (postSyncEnv env) (delUser c))
           @ snd (tbsyncSyncAccountByUser (postSyncEnv env) (delUser c))"
    unfolding run using e by simp
  show "calendarJobSeq (runSqlDelete now env c s)
         = calendarJobSeq s + length (filter (\<lambda>r. \<not> escapes (dispatch env r)) ids)"
    unfolding run using e by simp
qed

lemma runSqlDelete_status:
  assumes job: "workflowJobs s (delJobId c) = Some j"
  shows "map_option status (workflowJobs (runSqlDelete now env c s) (delJobId c))
         = Some (if (\<exists>ids. store env (buildQuery (delTarget c) (delLo c) (delHi c) (delNeedles c))
                          = Rows ids) \<and> closeFault env = None
                 then ''done'' else ''error'')"
proof (cases "store env (buildQuery (delTarget c) (delLo c) (delHi c) (delNeedles c))")
  case (OpenFails e)
  then show ?thesis using job
    by (simp add: runSqlDelete_def failDelete_def updateJob_def Let_def)
next
  case (ExecuteFails e)
  then show ?thesis using job
    by (simp add: runSqlDelete_def failDelete_def updateJob_def Let_def split: option.splits)
next
  case (Rows ids)
  show ?thesis
  proof (cases "closeFault env")
    case None
    from runSqlDelete_rows(1)[OF job Rows None] Rows None show ?thesis by simp
  next
    case (Some e2)
    obtain t s2 where d: "dispatchAll now (delTarget c) (dispatch env) ids
        (\<lparr>candidateCount = length ids, deleteTriggered = 0, deleteErrors = 0, sample = take 10 ids\<rparr>,
         updateJob (delJobId c)
           (\<lambda>job. job\<lparr>result := DeleteResult \<lparr>candidateCount = length ids, deleteTriggered = 0,
                                                 deleteErrors = 0, sample = take 10 ids\<rparr>,
                       updatedAtMs := now, step := ''delete''\<rparr>) s) = (t, s2)"
      by (cases "dispatchAll now (delTarget c) (dispatch env) ids
        (\<lparr>candidateCount = length ids, deleteTriggered = 0, deleteErrors = 0, sample = take 10 ids\<rparr>,
         updateJob (delJobId c)
           (\<lambda>job. job\<lparr>result := DeleteResult \<lparr>candidateCount = length ids, deleteTriggered = 0,
                                                 deleteErrors = 0, sample = take 10 ids\<rparr>,
                       updatedAtMs := now, step := ''delete''\<rparr>) s)")
    have "workflowJobs s2 (delJobId c) \<noteq> None"
      using dispatchAll_effect[OF d] job by (simp add: updateJob_def)
    then show ?thesis
      using Rows Some d
      by (auto simp: runSqlDelete_def failDelete_def updateJob_def Let_def)
  qed
qed

lemma week_request:
  shows "syncAndDeleteEventsBySql exampleCalendars exampleNativeTime 1000
     (deleteArgs\<lparr>titleMustContainAll := n\<rparr>) initState
   = (DeleteWorkflowStarted (WfJob 1000 1), Some (weekCont n), weekState n)"
  and "workflowJobs (weekState n) (WfJob 1000 1)
   = Some \<lparr>jobId = WfJob 1000 1, status = ''running'', createdAtMs = 1000, updatedAtMs = 1000,
           step = ''querySql'',
           meta = SqlDeleteMeta (Some ''user@example.org'') ''cal-1'' ''C''
                    (Some ''2026-02-02T00:00'') (Some ''2026-02-09T00:00'') n,
           result = DeleteResult \<lparr>candidateCount = 0, deleteTriggered = 0, deleteErrors = 0,
                                  sample = []\<rparr>,
           error = None\<rparr>"
  and "issued (weekState n) = []"
  and "calendarJobSeq (weekState n) = 0"
  and "calendarJobs (weekState n) = Map.empty"
proof -
  let ?args = "deleteArgs\<lparr>titleMustContainAll := n\<rparr>"
  have cal: "resolveCalendar exampleCalendars ?args
      = Some \<lparr>calId = ''cal-1'', calName = ''C'', readOnly = False\<rparr>"
    using example_calendar[where a = "Some ''2026-02-02T00:00''" and b = "Some ''2026-02-09T00:00''"
        and n = n]
    by (simp add: deleteArgs_def noArgs_def)
  have r: "makeTimedRange exampleNativeTime (Some ''2026-02-02T00:00'') (Some ''2026-02-09T00:00'')
      = Range (exampleNativeTime \<lparr>y = 2026, mo = 2, d = 2, hh = 0, mm = 0\<rparr>)
              (exampleNativeTime \<lparr>y = 2026, mo = 2, d = 9, hh = 0, mm = 0\<rparr>)"
    by (simp add: makeTimedRange_def parse_examples) (simp add: exampleNativeTime_def)
  have whole: "syncAndDeleteEventsBySql exampleCalendars exampleNativeTime 1000 ?args initState
      = (DeleteWorkflowStarted (WfJob 1000 1), Some (weekCont n),
         initState\<lparr>workflowSeq := 1,
           workflowJobs := [WfJob 1000 1 \<mapsto>
             \<lparr>jobId = WfJob 1000 1, status = ''running'', createdAtMs = 1000, updatedAtMs = 1000,
              step = ''querySql'',
              meta = SqlDeleteMeta (Some ''user@example.org'') ''cal-1'' ''C''
                       (Some ''2026-02-02T00:00'') (Some ''2026-02-09T00:00'') n,
              result = DeleteResult \<lparr>candidateCount = 0, deleteTriggered = 0, deleteErrors = 0,
                                     sample = []\<rparr>,
              error = None\<rparr>]\<rparr>)"
    by (simp add: syncAndDeleteEventsBySql_def cal r delete_args_fields truthy_def
        newWorkflowJobId_def weekCont_def)
      (simp add: initState_def)
  then have st: "weekState n = initState\<lparr>workflowSeq := 1,
           workflowJobs := [WfJob 1000 1 \<mapsto>
             \<lparr>jobId = WfJob 1000 1, status = ''running'', createdAtMs = 1000, updatedAtMs = 1000,
              step = ''querySql'',
              meta = SqlDeleteMeta (Some ''user@example.org'') ''cal-1'' ''C''
                       (Some ''2026-02-02T00:00'') (Some ''2026-02-09T00:00'') n,
              result = DeleteResult \<lparr>candidateCount = 0, deleteTriggered = 0, deleteErrors = 0,
                                     sample = []\<rparr>,
              error = None\<rparr>]\<rparr>"
    by (simp add: weekState_def)
  show "syncAndDeleteEventsBySql exampleCalendars exampleNativeTime 1000 ?args initState
   = (DeleteWorkflowStarted (WfJob 1000 1), Some (weekCont n), weekState n)"
    using whole st by simp
  show "workflowJobs (weekState n) (WfJob 1000 1)
   = Some \<lparr>jobId = WfJob 1000 1, status = ''running'', createdAtMs = 1000, updatedAtMs = 1000,
           step = ''querySql'',
           meta = SqlDeleteMeta (Some ''user@example.org'') ''cal-1'' ''C''
                    (Some ''2026-02-02T00:00'') (Some ''2026-02-09T00:00'') n,
           result = DeleteResult \<lparr>candidateCount = 0, deleteTriggered = 0, deleteErrors = 0,
                                  sample = []\<rparr>,
           error = None\<rparr>"
    by (simp add: st)
  show "issued (weekState n) = []" by (simp add: st initState_def)
  show "calendarJobSeq (weekState n) = 0" by (simp add: st initState_def)
  show "calendarJobs (weekState n) = Map.empty" by (simp add: st initState_def)
qed

lemma like_standup:
  "likeMatch ''%standup%'' ''standup''" "likeMatch ''%standup%'' ''team standup''"
  "\<not> likeMatch ''%standup%'' ''dentist''"
  by (simp_all add: lowerChar_def)

lemma week_rows:
  "store weekEnv (buildQuery (delTarget (weekCont (Some [''standup''])))
      (delLo (weekCont (Some [''standup'']))) (delHi (weekCont (Some [''standup''])))
      (delNeedles (weekCont (Some [''standup'']))))
   = Rows [\<lparr>rowId = ''ev-1'', rowTitle = ''Standup''\<rparr>,
           \<lparr>rowId = ''ev-3'', rowTitle = ''Team standup''\<rparr>]"
  "store weekEnv (buildQuery (delTarget (weekCont (Some []))) (delLo (weekCont (Some [])))
      (delHi (weekCont (Some []))) (delNeedles (weekCont (Some []))))
   = Rows [\<lparr>rowId = ''ev-1'', rowTitle = ''Standup''\<rparr>,
           \<lparr>rowId = ''ev-2'', rowTitle = ''Dentist''\<rparr>,
           \<lparr>rowId = ''ev-3'', rowTitle = ''Team standup''\<rparr>]"
proof -
  have low: "toLowerCase ''Standup'' = ''standup''" "toLowerCase ''Team standup'' = ''team standup''"
    "toLowerCase ''Dentist'' = ''dentist''" "toLowerCase ''standup'' = ''standup''"
    by (simp_all add: toLowerCase_def lowerChar_def)
  have tr: "trim ''standup'' = ''standup''"
    by (simp add: trim_def isSpace_def)
  show "store weekEnv (buildQuery (delTarget (weekCont (Some [''standup''])))
      (delLo (weekCont (Some [''standup'']))) (delHi (weekCont (Some [''standup''])))
      (delNeedles (weekCont (Some [''standup'']))))
   = Rows [\<lparr>rowId = ''ev-1'', rowTitle = ''Standup''\<rparr>,
           \<lparr>rowId = ''ev-3'', rowTitle = ''Team standup''\<rparr>]"
    by (simp add: weekEnv_def weekCont_def buildQuery_def sqlKeywords_def tableStore_def
        weekTable_def exampleNativeTime_def low tr like_standup lowerChar_def)
  show "store weekEnv (buildQuery (delTarget (weekCont (Some []))) (delLo (weekCont (Some [])))
      (delHi (weekCont (Some []))) (delNeedles (weekCont (Some []))))
   = Rows [\<lparr>rowId = ''ev-1'', rowTitle = ''Standup''\<rparr>,
           \<lparr>rowId = ''ev-2'', rowTitle = ''Dentist''\<rparr>,
           \<lparr>rowId = ''ev-3'', rowTitle = ''Team standup''\<rparr>]"
    by (simp add: weekEnv_def weekCont_def buildQuery_def sqlKeywords_def tableStore_def
        weekTable_def exampleNativeTime_def)
qed

text \<open>
  Claim C7, as amended. In the bulk delete through the calendar store every candidate the
  query returns is handled, whatever happens to the others. An exception that reaches the
  loop (creating the event object throws) adds one to \<open>deleteErrors\<close> and the candidate is
  skipped. For every other candidate \<open>deleteItem\<close> is called and one is added to
  \<open>deleteTriggered\<close>; an exception of \<open>deleteItem\<close> itself is caught inside
  \<open>startDeleteItemJob\<close> and recorded in the calendar job of the candidate, not in the tally
  of errors. The two tallies add up to the number of candidates. The workflow ends with the
  status \<open>done\<close> when the store returned rows and the connection closed, whatever the
  candidates and the post-sync did, and with the status \<open>error\<close> exactly when opening the
  store, the query or closing the connection failed.
\<close>

theorem sql_delete_isolates_candidates:
  assumes job: "workflowJobs s (delJobId c) = Some j"
    and q: "q = buildQuery (delTarget c) (delLo c) (delHi c) (delNeedles c)"
    and after: "sDone = runSqlDelete now env c s"
  shows "(store env q = Rows ids \<and> closeFault env = None \<longrightarrow>
            map_option status (workflowJobs sDone (delJobId c)) = Some ''done''
          \<and> map_option step (workflowJobs sDone (delJobId c)) = Some ''done''
          \<and> map_option result (workflowJobs sDone (delJobId c))
              = Some (DeleteResult
                  \<lparr>candidateCount = length ids,
                   deleteTriggered = length (filter (\<lambda>r. \<not> escapes (dispatch env r)) ids),
                   deleteErrors = length (filter (\<lambda>r. escapes (dispatch env r)) ids),
                   sample = take 10 ids\<rparr>)
          \<and> length (filter (\<lambda>r. \<not> escapes (dispatch env r)) ids)
              + length (filter (\<lambda>r. escapes (dispatch env r)) ids) = length ids
          \<and> issued sDone
              = issued s @ map (\<lambda>r. DeleteItem (calId (delTarget c)) (rowId r))
                             (filter (\<lambda>r. \<not> escapes (dispatch env r)) ids)
                @ snd (tbsyncSyncAccountByUser (postSyncEnv env) (delUser c))
                @ snd (tbsyncSyncAccountByUser (postSyncEnv env) (delUser c))
          \<and> calendarJobSeq sDone
              = calendarJobSeq s + length (filter (\<lambda>r. \<not> escapes (dispatch env r)) ids))
       \<and> ((map_option status (workflowJobs sDone (delJobId c)) = Some ''error'')
            = ((\<forall>rows. store env q \<noteq> Rows rows) \<or> closeFault env \<noteq> None))
       \<and> (map_option status (workflowJobs sDone (delJobId c)) = Some ''error''
            \<or> map_option status (workflowJobs sDone (delJobId c)) = Some ''done'')"
proof -
  have rows: "map_option status (workflowJobs sDone (delJobId c)) = Some ''done''
          \<and> map_option step (workflowJobs sDone (delJobId c)) = Some ''done''
          \<and> map_option result (workflowJobs sDone (delJobId c))
              = Some (DeleteResult
                  \<lparr>candidateCount = length ids,
                   deleteTriggered = length (filter (\<lambda>r. \<not> escapes (dispatch env r)) ids),
                   deleteErrors = length (filter (\<lambda>r. escapes (dispatch env r)) ids),
                   sample = take 10 ids\<rparr>)
          \<and> length (filter (\<lambda>r. \<not> escapes (dispatch env r)) ids)
              + length (filter (\<lambda>r. escapes (dispatch env r)) ids) = length ids
          \<and> issued sDone
              = issued s @ map (\<lambda>r. DeleteItem (calId (delTarget c)) (rowId r))
                             (filter (\<lambda>r. \<not> escapes (dispatch env r)) ids)
                @ snd (tbsyncSyncAccountByUser (postSyncEnv env) (delUser c))
                @ snd (tbsyncSyncAccountByUser (postSyncEnv env) (delUser c))
          \<and> calendarJobSeq sDone
              = calendarJobSeq s + length (filter (\<lambda>r. \<not> escapes (dispatch env r)) ids)"
    if "store env q = Rows ids" and "closeFault env = None"
  proof -
    note r = runSqlDelete_rows[OF job that(1)[unfolded q] that(2), of now]
    show ?thesis
      unfolding after using r tally_split[of "dispatch env" ids] by simp
  qed
  have st: "map_option status (workflowJobs sDone (delJobId c))
         = Some (if (\<exists>rows. store env q = Rows rows) \<and> closeFault env = None
                 then ''done'' else ''error'')"
    unfolding after q using job by (rule runSqlDelete_status)
  have err: "(map_option status (workflowJobs sDone (delJobId c)) = Some ''error'')
            = ((\<forall>rows. store env q \<noteq> Rows rows) \<or> closeFault env \<noteq> None)"
    unfolding st by auto
  have either: "map_option status (workflowJobs sDone (delJobId c)) = Some ''error''
            \<or> map_option status (workflowJobs sDone (delJobId c)) = Some ''done''"
    unfolding st by auto
  from rows err either show ?thesis by blast
qed

lemma week_dispatch:
  "filter (\<lambda>r. \<not> escapes (dispatch brokenEnv r))
     [\<lparr>rowId = ''ev-1'', rowTitle = ''Standup''\<rparr>, \<lparr>rowId = ''ev-3'', rowTitle = ''Team standup''\<rparr>]
   = [\<lparr>rowId = ''ev-1'', rowTitle = ''Standup''\<rparr>]"
  "filter (\<lambda>r. escapes (dispatch brokenEnv r))
     [\<lparr>rowId = ''ev-1'', rowTitle = ''Standup''\<rparr>, \<lparr>rowId = ''ev-3'', rowTitle = ''Team standup''\<rparr>]
   = [\<lparr>rowId = ''ev-3'', rowTitle = ''Team standup''\<rparr>]"
  "filter (\<lambda>r. \<not> escapes (dispatch refusingEnv r))
     [\<lparr>rowId = ''ev-1'', rowTitle = ''Standup''\<rparr>, \<lparr>rowId = ''ev-3'', rowTitle = ''Team standup''\<rparr>]
   = [\<lparr>rowId = ''ev-1'', rowTitle = ''Standup''\<rparr>, \<lparr>rowId = ''ev-3'', rowTitle = ''Team standup''\<rparr>]"
  "filter (\<lambda>r. escapes (dispatch refusingEnv r))
     [\<lparr>rowId = ''ev-1'', rowTitle = ''Standup''\<rparr>, \<lparr>rowId = ''ev-3'', rowTitle = ''Team standup''\<rparr>]
   = []"
  by (simp_all add: brokenEnv_def refusingEnv_def weekEnv_def escapes_def)

lemma week_env_fields:
  "store brokenEnv = store weekEnv" "closeFault brokenEnv = None"
  "postSyncEnv brokenEnv = okTbsync"
  "store refusingEnv = store weekEnv" "closeFault refusingEnv = None"
  "postSyncEnv refusingEnv = okTbsync" "closeFault weekEnv = None" "postSyncEnv weekEnv = okTbsync"
  "dispatch weekEnv = (\<lambda>r. Accepted)"
  by (simp_all add: brokenEnv_def refusingEnv_def weekEnv_def)

lemma week_cont_fields:
  "delJobId (weekCont n) = WfJob 1000 1" "delUser (weekCont n) = Some ''user@example.org''"
  "delTarget (weekCont n) = \<lparr>calId = ''cal-1'', calName = ''C'', readOnly = False\<rparr>"
  by (simp_all add: weekCont_def)

theorem sql_delete_isolates_candidates_witness:
  "map_option status
     (workflowJobs (runSqlDelete 2000 brokenEnv (weekCont (Some [''standup'']))
                      (weekState (Some [''standup'']))) (WfJob 1000 1)) = Some ''done''
   \<and> map_option result
     (workflowJobs (runSqlDelete 2000 brokenEnv (weekCont (Some [''standup'']))
                      (weekState (Some [''standup'']))) (WfJob 1000 1))
     = Some (DeleteResult
               \<lparr>candidateCount = 2, deleteTriggered = 1, deleteErrors = 1,
                sample = [\<lparr>rowId = ''ev-1'', rowTitle = ''Standup''\<rparr>,
                          \<lparr>rowId = ''ev-3'', rowTitle = ''Team standup''\<rparr>]\<rparr>)
   \<and> issued (runSqlDelete 2000 brokenEnv (weekCont (Some [''standup'']))
               (weekState (Some [''standup''])))
     = [DeleteItem ''cal-1'' ''ev-1'', SyncAccount ''acct1'', SyncAccount ''acct1'']"
proof -
  let ?c = "weekCont (Some [''standup''])"
  let ?s = "weekState (Some [''standup''])"
  have job: "workflowJobs ?s (delJobId ?c)
   = Some \<lparr>jobId = WfJob 1000 1, status = ''running'', createdAtMs = 1000, updatedAtMs = 1000,
           step = ''querySql'',
           meta = SqlDeleteMeta (Some ''user@example.org'') ''cal-1'' ''C''
                    (Some ''2026-02-02T00:00'') (Some ''2026-02-09T00:00'') (Some [''standup'']),
           result = DeleteResult \<lparr>candidateCount = 0, deleteTriggered = 0, deleteErrors = 0,
                                  sample = []\<rparr>,
           error = None\<rparr>"
    using week_request(2)[of "Some [''standup'']"] by (simp add: week_cont_fields)
  have rows: "store brokenEnv (buildQuery (delTarget ?c) (delLo ?c) (delHi ?c) (delNeedles ?c))
      = Rows [\<lparr>rowId = ''ev-1'', rowTitle = ''Standup''\<rparr>,
              \<lparr>rowId = ''ev-3'', rowTitle = ''Team standup''\<rparr>]"
    by (simp only: week_env_fields week_rows)
  note t = sql_delete_isolates_candidates[OF job refl refl, of brokenEnv
      "[\<lparr>rowId = ''ev-1'', rowTitle = ''Standup''\<rparr>, \<lparr>rowId = ''ev-3'', rowTitle = ''Team standup''\<rparr>]"
      2000]
  from t[unfolded week_dispatch] rows week_request(3)[of "Some [''standup'']"] show ?thesis
    by (simp add: week_env_fields week_cont_fields ok_sync numeral_2_eq_2)
qed

text \<open>
  The claim as stated counts every failure while dispatching a candidate as an error. When
  the provider's \<open>deleteItem\<close> throws for the second of two candidates, the exception is
  caught inside \<open>startDeleteItemJob\<close>: the calendar job of that candidate has the status
  \<open>error\<close>, and the workflow reports two deletes triggered and no error.
\<close>

theorem delete_item_exception_not_tallied:
  "dispatch refusingEnv \<lparr>rowId = ''ev-3'', rowTitle = ''Team standup''\<rparr>
     = DeleteItemThrows ''Error: NS_ERROR_FAILURE''
   \<and> map_option result
     (workflowJobs (runSqlDelete 2000 refusingEnv (weekCont (Some [''standup'']))
                      (weekState (Some [''standup'']))) (WfJob 1000 1))
     = Some (DeleteResult
               \<lparr>candidateCount = 2, deleteTriggered = 2, deleteErrors = 0,
                sample = [\<lparr>rowId = ''ev-1'', rowTitle = ''Standup''\<rparr>,
                          \<lparr>rowId = ''ev-3'', rowTitle = ''Team standup''\<rparr>]\<rparr>)
   \<and> map_option cjStatus
     (calendarJobs (runSqlDelete 2000 refusingEnv (weekCont (Some [''standup'']))
                      (weekState (Some [''standup'']))) (CalJob 2000 2)) = Some ''error''
   \<and> map_option status
     (workflowJobs (runSqlDelete 2000 refusingEnv (weekCont (Some [''standup'']))
                      (weekState (Some [''standup'']))) (WfJob 1000 1)) = Some ''done''"
proof -
  let ?c = "weekCont (Some [''standup''])"
  let ?s = "weekState (Some [''standup''])"
  have rows: "store refusingEnv (buildQuery (delTarget ?c) (delLo ?c) (delHi ?c) (delNeedles ?c))
      = Rows [\<lparr>rowId = ''ev-1'', rowTitle = ''Standup''\<rparr>,
              \<lparr>rowId = ''ev-3'', rowTitle = ''Team standup''\<rparr>]"
    by (simp only: week_env_fields week_rows)
  have d: "dispatch refusingEnv \<lparr>rowId = ''ev-1'', rowTitle = ''Standup''\<rparr> = Accepted"
    "dispatch refusingEnv \<lparr>rowId = ''ev-3'', rowTitle = ''Team standup''\<rparr>
     = DeleteItemThrows ''Error: NS_ERROR_FAILURE''"
    by (simp_all add: refusingEnv_def weekEnv_def)
  have close: "closeFault refusingEnv = None"
    by (simp add: week_env_fields)
  show ?thesis
    unfolding runSqlDelete_def rows close
    using week_request(2-5)[of "Some [''standup'']"]
    by (simp add: d week_env_fields week_cont_fields Let_def updateJob_def
        startDeleteItemJob_def newCalendarJobId_def logCalls_def ok_sync)
qed

section \<open>An empty list of required substrings\<close>

lemma containsAll_keywords:
  "containsAll h ns = list_all (\<lambda>kw. strIncludes (toLowerCase h) kw) (sqlKeywords (Some ns))"
  by (induction ns) (auto simp: sqlKeywords_def Let_def)

lemma week_rows_all:
  "store weekEnv \<lparr>cal_id = ''cal-1'',
                  start_us = exampleNativeTime \<lparr>y = 2026, mo = 2, d = 2, hh = 0, mm = 0\<rparr>,
                  end_us = exampleNativeTime \<lparr>y = 2026, mo = 2, d = 9, hh = 0, mm = 0\<rparr>,
                  kws = []\<rparr>
   = Rows [\<lparr>rowId = ''ev-1'', rowTitle = ''Standup''\<rparr>,
           \<lparr>rowId = ''ev-2'', rowTitle = ''Dentist''\<rparr>,
           \<lparr>rowId = ''ev-3'', rowTitle = ''Team standup''\<rparr>]"
  using week_rows(2) by (simp add: buildQuery_def weekCont_def sqlKeywords_def)

text \<open>
  Claim C3, as amended. A bulk-delete request whose list of required substrings is empty,
  absent or all blank is not rejected. It registers a workflow job like any other valid
  request; the statement sent to the store has no condition on the title, so every event
  of the calendar that starts in the window is a candidate, and a delete is dispatched for
  each candidate. \<open>containsAll\<close> holds of every title for such a list.
\<close>

theorem empty_filter_selects_whole_window:
  assumes user: "truthy (tbsyncUser args)"
    and given: "truthy (startArg args)" "truthy (endArg args)"
    and cal: "resolveCalendar calendars args = Some target"
    and writable: "\<not> readOnly target"
    and range: "makeTimedRange nativeTime (startArg args) (endArg args) = Range lo hi"
    and empty: "sqlKeywords (titleMustContainAll args) = []"
    and w: "w = WfJob now (Suc (workflowSeq s))"
    and c: "c = \<lparr>delJobId = w, delTarget = target, delLo = lo, delHi = hi,
                  delNeedles = titleMustContainAll args, delUser = tbsyncUser args\<rparr>"
    and sReg: "sReg = snd (snd (syncAndDeleteEventsBySql calendars nativeTime now args s))"
    and rows: "store env \<lparr>cal_id = calId target, start_us = lo, end_us = hi, kws = []\<rparr> = Rows ids"
    and close: "closeFault env = None"
  shows "fst (syncAndDeleteEventsBySql calendars nativeTime now args s) = DeleteWorkflowStarted w
       \<and> fst (snd (syncAndDeleteEventsBySql calendars nativeTime now args s)) = Some c
       \<and> map_option status (workflowJobs sReg w) = Some ''running''
       \<and> buildQuery target lo hi (titleMustContainAll args)
           = \<lparr>cal_id = calId target, start_us = lo, end_us = hi, kws = []\<rparr>
       \<and> map_option result (workflowJobs (runSqlDelete later env c sReg) w)
           = Some (DeleteResult
               \<lparr>candidateCount = length ids,
                deleteTriggered = length (filter (\<lambda>r. \<not> escapes (dispatch env r)) ids),
                deleteErrors = length (filter (\<lambda>r. escapes (dispatch env r)) ids),
                sample = take 10 ids\<rparr>)
       \<and> issued (runSqlDelete later env c sReg)
           = issued s @ map (\<lambda>r. DeleteItem (calId target) (rowId r))
                          (filter (\<lambda>r. \<not> escapes (dispatch env r)) ids)
             @ snd (tbsyncSyncAccountByUser (postSyncEnv env) (tbsyncUser args))
             @ snd (tbsyncSyncAccountByUser (postSyncEnv env) (tbsyncUser args))
       \<and> containsAll ttl (case titleMustContainAll args of None \<Rightarrow> [] | Some ns \<Rightarrow> ns)"
proof -
  let ?job = "\<lparr>jobId = w, status = ''running'', createdAtMs = now, updatedAtMs = now,
               step = ''querySql'',
               meta = SqlDeleteMeta (tbsyncUser args) (calId target) (calName target)
                        (startArg args) (endArg args) (titleMustContainAll args),
               result = DeleteResult \<lparr>candidateCount = 0, deleteTriggered = 0,
                                       deleteErrors = 0, sample = []\<rparr>,
               error = None\<rparr>"
  have call: "syncAndDeleteEventsBySql calendars nativeTime now args s
      = (DeleteWorkflowStarted w, Some c,
         s\<lparr>workflowSeq := Suc (workflowSeq s), workflowJobs := (workflowJobs s)(w \<mapsto> ?job)\<rparr>)"
    using user given cal writable range
    by (simp add: syncAndDeleteEventsBySql_def newWorkflowJobId_def w c)
  then have reg: "sReg = s\<lparr>workflowSeq := Suc (workflowSeq s),
                           workflowJobs := (workflowJobs s)(w \<mapsto> ?job)\<rparr>"
    by (simp add: sReg)
  have query: "buildQuery target lo hi (titleMustContainAll args)
           = \<lparr>cal_id = calId target, start_us = lo, end_us = hi, kws = []\<rparr>"
    using empty by (simp add: buildQuery_def)
  have job: "workflowJobs sReg (delJobId c) = Some ?job"
    by (simp add: reg c)
  have rows': "store env (buildQuery (delTarget c) (delLo c) (delHi c) (delNeedles c)) = Rows ids"
    using rows query by (simp add: c)
  note r = runSqlDelete_rows[OF job rows' close, of later]
  have matcher: "containsAll ttl (case titleMustContainAll args of None \<Rightarrow> [] | Some ns \<Rightarrow> ns)"
  proof (cases "titleMustContainAll args")
    case None
    then show ?thesis by simp
  next
    case (Some ns)
    with empty show ?thesis by (simp add: containsAll_keywords)
  qed
  show ?thesis
    using call query matcher r(1,2) by (simp add: reg c)
qed

theorem empty_filter_selects_whole_window_witness:
  "fst (syncAndDeleteEventsBySql exampleCalendars exampleNativeTime 1000
          (deleteArgs\<lparr>titleMustContainAll := Some ['' '']\<rparr>) initState)
     = DeleteWorkflowStarted (WfJob 1000 1)
   \<and> issued (runSqlDelete 2000 weekEnv (weekCont (Some ['' ''])) (weekState (Some ['' ''])))
     = [DeleteItem ''cal-1'' ''ev-1'', DeleteItem ''cal-1'' ''ev-2'', DeleteItem ''cal-1'' ''ev-3'',
        SyncAccount ''acct1'', SyncAccount ''acct1'']
   \<and> containsAll ''Dentist'' ['' '']"
proof -
  let ?args = "deleteArgs\<lparr>titleMustContainAll := Some ['' '']\<rparr>"
  have f: "truthy (tbsyncUser ?args)" "truthy (startArg ?args)" "truthy (endArg ?args)"
    by (simp_all add: deleteArgs_def noArgs_def truthy_def)
  have cal: "resolveCalendar exampleCalendars ?args
      = Some \<lparr>calId = ''cal-1'', calName = ''C'', readOnly = False\<rparr>"
    using example_calendar[where a = "Some ''2026-02-02T00:00''" and b = "Some ''2026-02-09T00:00''"
        and n = "Some ['' '']"]
    by (simp add: deleteArgs_def noArgs_def)
  have range: "makeTimedRange exampleNativeTime (startArg ?args) (endArg ?args)
      = Range (exampleNativeTime \<lparr>y = 2026, mo = 2, d = 2, hh = 0, mm = 0\<rparr>)
              (exampleNativeTime \<lparr>y = 2026, mo = 2, d = 9, hh = 0, mm = 0\<rparr>)"
    by (simp add: makeTimedRange_def parse_examples deleteArgs_def noArgs_def)
      (simp add: exampleNativeTime_def)
  have empty: "sqlKeywords (titleMustContainAll ?args) = []"
    by (simp add: sqlKeywords_def deleteArgs_def noArgs_def toLowerCase_def lowerChar_def
        trim_def isSpace_def)
  have c: "weekCont (Some ['' '']) = \<lparr>delJobId = WfJob 1000 (Suc (workflowSeq initState)),
       delTarget = \<lparr>calId = ''cal-1'', calName = ''C'', readOnly = False\<rparr>,
       delLo = exampleNativeTime \<lparr>y = 2026, mo = 2, d = 2, hh = 0, mm = 0\<rparr>,
       delHi = exampleNativeTime \<lparr>y = 2026, mo = 2, d = 9, hh = 0, mm = 0\<rparr>,
       delNeedles = titleMustContainAll ?args, delUser = tbsyncUser ?args\<rparr>"
    by (simp add: weekCont_def initState_def deleteArgs_def noArgs_def)
  have rows: "store weekEnv \<lparr>cal_id = calId \<lparr>calId = ''cal-1'', calName = ''C'', readOnly = False\<rparr>,
                  start_us = exampleNativeTime \<lparr>y = 2026, mo = 2, d = 2, hh = 0, mm = 0\<rparr>,
                  end_us = exampleNativeTime \<lparr>y = 2026, mo = 2, d = 9, hh = 0, mm = 0\<rparr>,
                  kws = []\<rparr>
   = Rows [\<lparr>rowId = ''ev-1'', rowTitle = ''Standup''\<rparr>,
           \<lparr>rowId = ''ev-2'', rowTitle = ''Dentist''\<rparr>,
           \<lparr>rowId = ''ev-3'', rowTitle = ''Team standup''\<rparr>]"
    using week_rows_all by simp
  have st: "weekState (Some ['' ''])
      = snd (snd (syncAndDeleteEventsBySql exampleCalendars exampleNativeTime 1000 ?args initState))"
    by (simp add: weekState_def)
  have seq: "Suc (workflowSeq initState) = 1"
    by (simp add: initState_def)
  have user: "tbsyncUser ?args = Some ''user@example.org''"
    by (simp add: deleteArgs_def noArgs_def)
  note t = empty_filter_selects_whole_window[OF f cal _ range empty refl c st rows,
      where later = 2000 and ttl = "''Dentist''"]
  from t show ?thesis
    by (simp add: week_env_fields seq user ok_sync escapes_def initState_def)
qed

text \<open>
  The claim as stated has the request with an empty list fail with a validation error,
  without candidates and without deletes. The request is accepted, and the workflow
  dispatches a delete for each of the three events of the week, the dentist's among them.
\<close>

theorem empty_filter_deletes_every_event:
  "fst (syncAndDeleteEventsBySql exampleCalendars exampleNativeTime 1000
          (deleteArgs\<lparr>titleMustContainAll := Some []\<rparr>) initState)
     = DeleteWorkflowStarted (WfJob 1000 1)
   \<and> fst (snd (syncAndDeleteEventsBySql exampleCalendars exampleNativeTime 1000
          (deleteArgs\<lparr>titleMustContainAll := Some []\<rparr>) initState))
     = Some (weekCont (Some []))
   \<and> issued (runSqlDelete 2000 weekEnv (weekCont (Some [])) (weekState (Some [])))
     = [DeleteItem ''cal-1'' ''ev-1'', DeleteItem ''cal-1'' ''ev-2'', DeleteItem ''cal-1'' ''ev-3'',
        SyncAccount ''acct1'', SyncAccount ''acct1'']
   \<and> map_option result
        (workflowJobs (runSqlDelete 2000 weekEnv (weekCont (Some [])) (weekState (Some [])))
           (WfJob 1000 1))
     = Some (DeleteResult
               \<lparr>candidateCount = 3, deleteTriggered = 3, deleteErrors = 0,
                sample = [\<lparr>rowId = ''ev-1'', rowTitle = ''Standup''\<rparr>,
                          \<lparr>rowId = ''ev-2'', rowTitle = ''Dentist''\<rparr>,
                          \<lparr>rowId = ''ev-3'', rowTitle = ''Team standup''\<rparr>]\<rparr>)"
proof -
  let ?c = "weekCont (Some [])"
  let ?s = "weekState (Some [])"
  have job: "workflowJobs ?s (delJobId ?c)
   = Some \<lparr>jobId = WfJob 1000 1, status = ''running'', createdAtMs = 1000, updatedAtMs = 1000,
           step = ''querySql'',
           meta = SqlDeleteMeta (Some ''user@example.org'') ''cal-1'' ''C''
                    (Some ''2026-02-02T00:00'') (Some ''2026-02-09T00:00'') (Some []),
           result = DeleteResult \<lparr>candidateCount = 0, deleteTriggered = 0, deleteErrors = 0,
                                  sample = []\<rparr>,
           error = None\<rparr>"
    using week_request(2)[of "Some []"] by (simp add: week_cont_fields)
  note r = runSqlDelete_rows[OF job week_rows(2) week_env_fields(7), of 2000]
  from r week_request(1,3)[of "Some []"] show ?thesis
    by (simp add: week_env_fields week_cont_fields ok_sync escapes_def numeral_3_eq_3)
qed

section \<open>The bound on workflow ids under the bulk delete\<close>

lemma wfIdsBounded_delete_request:
  assumes "wfIdsBounded s"
  shows "wfIdsBounded (snd (snd (syncAndDeleteEventsBySql calendars nativeTime now args s)))"
proof -
  have grow: "wfIdsBounded (s\<lparr>workflowSeq := Suc (workflowSeq s),
                              workflowJobs := (workflowJobs s)(WfJob now (Suc (workflowSeq s)) \<mapsto> job)\<rparr>)"
    for job
    using assms by (fastforce simp: wfIdsBounded_def)
  show ?thesis
    using assms grow
    by (auto simp: syncAndDeleteEventsBySql_def newWorkflowJobId_def
        split: option.splits range_result.splits)
qed

lemma runSqlDelete_frame:
  "workflowSeq (runSqlDelete now env c s) = workflowSeq s
   \<and> dom (workflowJobs (runSqlDelete now env c s)) = dom (workflowJobs s)
   \<and> idempotency (runSqlDelete now env c s) = idempotency s"
proof (cases "store env (buildQuery (delTarget c) (delLo c) (delHi c) (delNeedles c))")
  case (OpenFails e)
  then show ?thesis by (simp add: runSqlDelete_def failDelete_def Let_def)
next
  case (ExecuteFails e)
  then show ?thesis
    by (simp add: runSqlDelete_def failDelete_def Let_def split: option.splits)
next
  case (Rows ids)
  let ?t0 = "\<lparr>candidateCount = length ids, deleteTriggered = 0, deleteErrors = 0,
              sample = take 10 ids\<rparr>"
  let ?s1 = "updateJob (delJobId c) (\<lambda>job. job\<lparr>result := DeleteResult ?t0, updatedAtMs := now,
                                                step := ''delete''\<rparr>) s"
  obtain t s2 where d: "dispatchAll now (delTarget c) (dispatch env) ids (?t0, ?s1) = (t, s2)"
    by (cases "dispatchAll now (delTarget c) (dispatch env) ids (?t0, ?s1)")
  from dispatchAll_effect[OF d]
  have e: "workflowJobs s2 = workflowJobs ?s1" "workflowSeq s2 = workflowSeq ?s1"
    "idempotency s2 = idempotency ?s1"
    by simp_all
  have dom2: "dom (workflowJobs s2) = dom (workflowJobs s)"
    using e(1) by simp
  show ?thesis
    using Rows d e(2,3) dom2
    by (simp add: runSqlDelete_def failDelete_def Let_def split: option.splits)
qed

lemma wfIdsBounded_runSqlDelete:
  "wfIdsBounded s \<Longrightarrow> wfIdsBounded (runSqlDelete now env c s)"
  using runSqlDelete_frame[of now env c s] wfIdsBounded_same by blast

section \<open>The count of matched items\<close>














section \<open>The tag at the end of a title\<close>

text \<open>
  Applying \<open>withTagAtEnd\<close> a second time with the same tag changes nothing when the title is
  not blank, or when the tag is blank.
\<close>

lemma withTagAtEnd_idem:
  assumes "trim (strOrEmpty ttl) \<noteq> [] \<or> trim (strOrEmpty tag) = []"
  shows "withTagAtEnd (Some (withTagAtEnd ttl tag)) tag = withTagAtEnd ttl tag"
proof -
  let ?base = "trim (strOrEmpty ttl)"
  let ?t = "trim (strOrEmpty tag)"
  show ?thesis
  proof (cases "?t = []")
    case True
    then show ?thesis by (simp add: withTagAtEnd_def Let_def strOrEmpty_def trim_trim)
  next
    case t: False
    with assms have b: "?base \<noteq> []" by simp
    show ?thesis
    proof (cases "endsWith ?base (''('' @ ?t @ '')'')")
      case True
      then show ?thesis using t by (simp add: withTagAtEnd_def Let_def strOrEmpty_def trim_trim)
    next
      case False
      let ?r = "?base @ '' ('' @ ?t @ '')''"
      have once: "withTagAtEnd ttl tag = ?r"
        using t False by (simp add: withTagAtEnd_def Let_def)
      have "hd ?r = hd ?base" using b by simp
      then have h: "\<not> isSpace (hd ?r)" using trim_ends(1)[OF b] by simp
      have l: "\<not> isSpace (last ?r)" by (simp add: isSpace_def)
      have tr: "trim ?r = ?r" using h l by (intro trim_fixed) auto
      have "?r = (?base @ '' '') @ (''('' @ ?t @ '')'')" by simp
      then have e: "endsWith ?r (''('' @ ?t @ '')'')" by (metis endsWith_append)
      show ?thesis
        unfolding once using t tr e by (simp add: withTagAtEnd_def Let_def strOrEmpty_def)
    qed
  qed
qed

text \<open>
  Claim C10. The tag-appending function is said to be idempotent for every title and every
  non-empty tag. For a blank title it is not: the first application yields the tag in
  parentheses after a space, and the second application, which trims its argument, removes
  that space.
\<close>

theorem withTagAtEnd_blank_title_twice:
  "withTagAtEnd (Some ''   '') (Some ''mcp:20260204'') = '' (mcp:20260204)''
   \<and> withTagAtEnd (Some (withTagAtEnd (Some ''   '') (Some ''mcp:20260204'')))
        (Some ''mcp:20260204'') = ''(mcp:20260204)''"
  by (simp add: withTagAtEnd_def Let_def strOrEmpty_def trim_def isSpace_def endsWith_def)

end
